theory Spec2Isabelle
  imports Main "HOL-Library.Sublist"
begin

section \<open>Strings\<close>

text \<open>
  A JavaScript string is a sequence of UTF-16 code units, and \<^verbatim>\<open>length\<close> counts
  code units. Text that the user types or the browser supplies is therefore a list of
  code units (\<open>jsstring\<close>). Text that occurs literally in the program (messages, field
  names, stage labels, job data) or that is built from base-36 digits (identifiers) is
  an Isabelle \<open>string\<close>; \<open>js\<close> embeds such a literal into the code units.
\<close>

type_synonym jsstring = "nat list"

definition js :: "string \<Rightarrow> jsstring" where
  "js s = map of_char s"

text \<open>
  \<^verbatim>\<open>String.prototype.trim\<close> removes leading and trailing WhiteSpace and
  LineTerminator code points; the regular-expression class \<^verbatim>\<open>\s\<close> is the same set.
\<close>

definition isWhiteSpace :: "nat \<Rightarrow> bool" where
  "isWhiteSpace c \<longleftrightarrow>
     c = 0x09 \<or> c = 0x0A \<or> c = 0x0B \<or> c = 0x0C \<or> c = 0x0D \<or> c = 0x20 \<or> c = 0xA0 \<or>
     c = 0x1680 \<or> (0x2000 \<le> c \<and> c \<le> 0x200A) \<or> c = 0x2028 \<or> c = 0x2029 \<or>
     c = 0x202F \<or> c = 0x205F \<or> c = 0x3000 \<or> c = 0xFEFF"

definition trim :: "jsstring \<Rightarrow> jsstring" where
  "trim s = rev (dropWhile isWhiteSpace (rev (dropWhile isWhiteSpace s)))"

section \<open>Data model (src/lib/store.ts)\<close>

record PersonalInfo =
  fullName :: jsstring
  email :: jsstring
  phone :: jsstring

record Experience =
  yearsOfExperience :: jsstring
  skills :: "jsstring list"
  portfolioLink :: jsstring

text \<open>Of a browser \<^verbatim>\<open>File\<close> the program reads the name, the size and the MIME type.\<close>

record File =
  name_f :: jsstring
  size_f :: nat
  type_f :: jsstring

record ApplicationForm =
  personalInfo :: PersonalInfo
  experience :: Experience
  resumeFile :: "File option"
  resumeFileName :: jsstring

record JobPosting =
  id_j :: string
  title :: string
  location :: string
  description :: string
  department :: string
  experience_j :: string

datatype Stage = Applied | Reviewed | InterviewScheduled | OfferSent

text \<open>The string each stage is at run time.\<close>

fun stage_text :: "Stage \<Rightarrow> string" where
  "stage_text Applied = ''Applied''"
| "stage_text Reviewed = ''Reviewed''"
| "stage_text InterviewScheduled = ''Interview Scheduled''"
| "stage_text OfferSent = ''Offer Sent''"

text \<open>An optional field (\<^verbatim>\<open>score?: number\<close>) is \<open>None\<close> when absent or undefined.\<close>

record Candidate =
  id_c :: string
  applicationId :: string
  jobId :: string
  jobTitle :: string
  applicationData :: ApplicationForm
  appliedDate :: string
  stage :: Stage
  score :: "int option"
  notes_c :: "jsstring option"
  interviewDate :: "jsstring option"
  interviewTime :: "jsstring option"
  offerDetails :: "jsstring option"

text \<open>
  \<^verbatim>\<open>Partial<Candidate>\<close>: every key may be missing (\<open>None\<close>). A key of an optional
  field may also be present with the value undefined (\<open>Some None\<close>), as in
  \<^verbatim>\<open>{ score: undefined }\<close>.
\<close>

record CandidateUpdates =
  id_u :: "string option"
  applicationId_u :: "string option"
  jobId_u :: "string option"
  jobTitle_u :: "string option"
  applicationData_u :: "ApplicationForm option"
  appliedDate_u :: "string option"
  stage_u :: "Stage option"
  score_u :: "int option option"
  notes_u :: "jsstring option option"
  interviewDate_u :: "jsstring option option"
  interviewTime_u :: "jsstring option option"
  offerDetails_u :: "jsstring option option"

text \<open>\<^verbatim>\<open>Partial<ApplicationForm>\<close>.\<close>

record ApplicationFormUpdates =
  personalInfo_u :: "PersonalInfo option"
  experience_u :: "Experience option"
  resumeFile_u :: "File option option"
  resumeFileName_u :: "jsstring option"

datatype UserRole = candidate_role | recruiter_role

record HireLinkStore =
  currentStep :: int
  applicationForm :: ApplicationForm
  jobPostings :: "JobPosting list"
  selectedJobId :: "string option"
  candidates :: "Candidate list"
  userRole :: UserRole

definition initialApplicationForm :: ApplicationForm where
  "initialApplicationForm =
     \<lparr> personalInfo = \<lparr> fullName = [], email = [], phone = [] \<rparr>,
       experience = \<lparr> yearsOfExperience = [], skills = [], portfolioLink = [] \<rparr>,
       resumeFile = None,
       resumeFileName = [] \<rparr>"

definition mockJobPostings :: "JobPosting list" where
  "mockJobPostings =
     [ \<lparr> id_j = ''1'', title = ''Senior Frontend Developer'', location = ''San Francisco, CA'',
         description = ''Build scalable web applications with React and Next.js. Join our team of passionate engineers.'',
         department = ''Engineering'', experience_j = ''5+ years'' \<rparr>,
       \<lparr> id_j = ''2'', title = ''Full Stack Engineer'', location = ''New York, NY'',
         description = ''Work on end-to-end features using modern web technologies. Shape the future of our platform.'',
         department = ''Engineering'', experience_j = ''3+ years'' \<rparr>,
       \<lparr> id_j = ''3'', title = ''Product Manager'', location = ''Remote'',
         description = ''Lead product vision and strategy for our core offerings. Drive impact across all departments.'',
         department = ''Product'', experience_j = ''4+ years'' \<rparr>,
       \<lparr> id_j = ''4'', title = ''UX/UI Designer'', location = ''Austin, TX'',
         description = ''Design beautiful and intuitive user experiences for millions of users.'',
         department = ''Design'', experience_j = ''2+ years'' \<rparr> ]"

definition initialStore :: HireLinkStore where
  "initialStore =
     \<lparr> currentStep = 0,
       applicationForm = initialApplicationForm,
       jobPostings = mockJobPostings,
       selectedJobId = None,
       candidates = [],
       userRole = candidate_role \<rparr>"

section \<open>Store operations (src/lib/store.ts)\<close>

text \<open>
  The two store faults are those the specification names; the source declares none.
  A store operation returns a fault (\<open>Inl\<close>) or the store it leaves behind (\<open>Inr\<close>),
  with one \<open>Inl\<close> branch for each place where the source throws or returns a fault:
  the setters of the store are calls of \<^verbatim>\<open>set\<close> that neither throw nor return a
  value, so they have no such branch.
\<close>

datatype store_error = DUPLICATE_ID | NOT_FOUND

type_synonym store_result = "store_error + HireLinkStore"

text \<open>\<^verbatim>\<open>{ ...state.applicationForm, ...form }\<close>\<close>

definition mergeApplicationForm :: "ApplicationForm \<Rightarrow> ApplicationFormUpdates \<Rightarrow> ApplicationForm" where
  "mergeApplicationForm f u =
     \<lparr> personalInfo = (case personalInfo_u u of None \<Rightarrow> personalInfo f | Some v \<Rightarrow> v),
       experience = (case experience_u u of None \<Rightarrow> experience f | Some v \<Rightarrow> v),
       resumeFile = (case resumeFile_u u of None \<Rightarrow> resumeFile f | Some v \<Rightarrow> v),
       resumeFileName = (case resumeFileName_u u of None \<Rightarrow> resumeFileName f | Some v \<Rightarrow> v) \<rparr>"

definition setApplicationForm :: "ApplicationFormUpdates \<Rightarrow> HireLinkStore \<Rightarrow> HireLinkStore" where
  "setApplicationForm form state =
     state\<lparr>applicationForm := mergeApplicationForm (applicationForm state) form\<rparr>"

definition setCurrentStep :: "int \<Rightarrow> HireLinkStore \<Rightarrow> HireLinkStore" where
  "setCurrentStep step state = state\<lparr>currentStep := step\<rparr>"

definition resetApplicationForm :: "HireLinkStore \<Rightarrow> HireLinkStore" where
  "resetApplicationForm state =
     state\<lparr>currentStep := 0, applicationForm := initialApplicationForm\<rparr>"

definition setSelectedJobId :: "string \<Rightarrow> HireLinkStore \<Rightarrow> HireLinkStore" where
  "setSelectedJobId jobId' state = state\<lparr>selectedJobId := Some jobId'\<rparr>"

text \<open>\<^verbatim>\<open>candidates: [candidate, ...state.candidates]\<close>: no check, no failing branch.\<close>

definition addCandidate :: "Candidate \<Rightarrow> HireLinkStore \<Rightarrow> store_result" where
  "addCandidate candidate state = Inr (state\<lparr>candidates := candidate # candidates state\<rparr>)"

text \<open>\<^verbatim>\<open>{ ...candidate, ...updates }\<close>: a key present in \<open>updates\<close> overwrites the field.\<close>

definition mergeCandidate :: "Candidate \<Rightarrow> CandidateUpdates \<Rightarrow> Candidate" where
  "mergeCandidate c u =
     \<lparr> id_c = (case id_u u of None \<Rightarrow> id_c c | Some v \<Rightarrow> v),
       applicationId = (case applicationId_u u of None \<Rightarrow> applicationId c | Some v \<Rightarrow> v),
       jobId = (case jobId_u u of None \<Rightarrow> jobId c | Some v \<Rightarrow> v),
       jobTitle = (case jobTitle_u u of None \<Rightarrow> jobTitle c | Some v \<Rightarrow> v),
       applicationData = (case applicationData_u u of None \<Rightarrow> applicationData c | Some v \<Rightarrow> v),
       appliedDate = (case appliedDate_u u of None \<Rightarrow> appliedDate c | Some v \<Rightarrow> v),
       stage = (case stage_u u of None \<Rightarrow> stage c | Some v \<Rightarrow> v),
       score = (case score_u u of None \<Rightarrow> score c | Some v \<Rightarrow> v),
       notes_c = (case notes_u u of None \<Rightarrow> notes_c c | Some v \<Rightarrow> v),
       interviewDate = (case interviewDate_u u of None \<Rightarrow> interviewDate c | Some v \<Rightarrow> v),
       interviewTime = (case interviewTime_u u of None \<Rightarrow> interviewTime c | Some v \<Rightarrow> v),
       offerDetails = (case offerDetails_u u of None \<Rightarrow> offerDetails c | Some v \<Rightarrow> v) \<rparr>"

text \<open>
  \<^verbatim>\<open>state.candidates.map((candidate) => candidate.id === id ? {...} : candidate)\<close>:
  no check that the id occurs, no failing branch.
\<close>

definition updateCandidate :: "string \<Rightarrow> CandidateUpdates \<Rightarrow> HireLinkStore \<Rightarrow> store_result" where
  "updateCandidate ident updates state =
     Inr (state\<lparr>candidates :=
       map (\<lambda>candidate. if id_c candidate = ident then mergeCandidate candidate updates else candidate)
         (candidates state)\<rparr>)"

text \<open>\<^verbatim>\<open>candidates.find((c) => c.id === id)\<close>; \<open>None\<close> is undefined.\<close>

definition getCandidateById :: "string \<Rightarrow> HireLinkStore \<Rightarrow> Candidate option" where
  "getCandidateById ident state = find (\<lambda>c. id_c c = ident) (candidates state)"

definition setUserRole :: "UserRole \<Rightarrow> HireLinkStore \<Rightarrow> HireLinkStore" where
  "setUserRole role state = state\<lparr>userRole := role\<rparr>"

text \<open>An update that names no key, and a record to start examples from.\<close>

definition noUpdates :: CandidateUpdates where
  "noUpdates =
     \<lparr> id_u = None, applicationId_u = None, jobId_u = None, jobTitle_u = None,
       applicationData_u = None, appliedDate_u = None, stage_u = None, score_u = None,
       notes_u = None, interviewDate_u = None, interviewTime_u = None, offerDetails_u = None \<rparr>"

definition exampleCandidate :: "string \<Rightarrow> Stage \<Rightarrow> Candidate" where
  "exampleCandidate ident st =
     \<lparr> id_c = ident, applicationId = ''HLA-'' @ ident, jobId = ''1'',
       jobTitle = ''Senior Frontend Developer'', applicationData = initialApplicationForm,
       appliedDate = ''2026-01-01T00:00:00.000Z'', stage = st, score = None,
       notes_c = Some [], interviewDate = None, interviewTime = None, offerDetails = None \<rparr>"

section \<open>Regular expressions\<close>

text \<open>
  The patterns of \<^verbatim>\<open>VALIDATION_RULES\<close> use character classes, sequence, option and
  repetition only, and each is anchored at both ends (\<^verbatim>\<open>^...$\<close>, no flags), so
  \<^verbatim>\<open>pattern.test(s)\<close> holds exactly when the whole of \<open>s\<close> is in the pattern's
  language. \<open>matches\<close> decides that by derivatives.
\<close>

datatype rexp =
  RNone
| REmpty
| RClass "nat \<Rightarrow> bool"
| RSeq rexp rexp
| RAlt rexp rexp
| RStar rexp

fun nullable :: "rexp \<Rightarrow> bool" where
  "nullable RNone = False"
| "nullable REmpty = True"
| "nullable (RClass p) = False"
| "nullable (RSeq r s) = (nullable r \<and> nullable s)"
| "nullable (RAlt r s) = (nullable r \<or> nullable s)"
| "nullable (RStar r) = True"

fun deriv :: "nat \<Rightarrow> rexp \<Rightarrow> rexp" where
  "deriv c RNone = RNone"
| "deriv c REmpty = RNone"
| "deriv c (RClass p) = (if p c then REmpty else RNone)"
| "deriv c (RSeq r s) =
     (if nullable r then RAlt (RSeq (deriv c r) s) (deriv c s) else RSeq (deriv c r) s)"
| "deriv c (RAlt r s) = RAlt (deriv c r) (deriv c s)"
| "deriv c (RStar r) = RSeq (deriv c r) (RStar r)"

fun matches :: "rexp \<Rightarrow> jsstring \<Rightarrow> bool" where
  "matches r [] = nullable r"
| "matches r (c # cs) = matches (deriv c r) cs"

text \<open>
  The language of a pattern: the strings that the anchored pattern accepts. \<open>repeated A\<close>
  holds the concatenations of any number of strings of \<open>A\<close>.
\<close>

inductive_set repeated :: "jsstring set \<Rightarrow> jsstring set" for A :: "jsstring set" where
  none: "[] \<in> repeated A"
| more: "u \<in> A \<Longrightarrow> v \<in> repeated A \<Longrightarrow> u @ v \<in> repeated A"

fun lang :: "rexp \<Rightarrow> jsstring set" where
  "lang RNone = {}"
| "lang REmpty = {[]}"
| "lang (RClass p) = {[c] | c. p c}"
| "lang (RSeq r s) = {u @ v | u v. u \<in> lang r \<and> v \<in> lang s}"
| "lang (RAlt r s) = lang r \<union> lang s"
| "lang (RStar r) = repeated (lang r)"

definition RPlus :: "rexp \<Rightarrow> rexp" where
  "RPlus r = RSeq r (RStar r)"

definition ROpt :: "rexp \<Rightarrow> rexp" where
  "ROpt r = RAlt REmpty r"

definition RChar :: "char \<Rightarrow> rexp" where
  "RChar ch = RClass (\<lambda>c. c = of_char ch)"

fun RLit :: "string \<Rightarrow> rexp" where
  "RLit [] = REmpty"
| "RLit (ch # chs) = RSeq (RChar ch) (RLit chs)"

text \<open>\<^verbatim>\<open>r{2,6}\<close>\<close>

definition RRep2to6 :: "rexp \<Rightarrow> rexp" where
  "RRep2to6 r = RSeq r (RSeq r (ROpt (RSeq r (ROpt (RSeq r (ROpt (RSeq r (ROpt r))))))))"

definition isDigit :: "nat \<Rightarrow> bool" where
  "isDigit c \<longleftrightarrow> of_char CHR ''0'' \<le> c \<and> c \<le> of_char CHR ''9''"

definition isLower :: "nat \<Rightarrow> bool" where
  "isLower c \<longleftrightarrow> of_char CHR ''a'' \<le> c \<and> c \<le> of_char CHR ''z''"

definition isUpper :: "nat \<Rightarrow> bool" where
  "isUpper c \<longleftrightarrow> of_char CHR ''A'' \<le> c \<and> c \<le> of_char CHR ''Z''"

text \<open>\<^verbatim>\<open>\w\<close>\<close>

definition isWord :: "nat \<Rightarrow> bool" where
  "isWord c \<longleftrightarrow> isLower c \<or> isUpper c \<or> isDigit c \<or> c = of_char CHR ''_''"

section \<open>Validation rules (src/lib/validation.ts)\<close>

text \<open>\<^verbatim>\<open>[a-zA-Z\s'-]\<close>\<close>

definition fullNameChar :: "nat \<Rightarrow> bool" where
  "fullNameChar c \<longleftrightarrow>
     isLower c \<or> isUpper c \<or> isWhiteSpace c \<or> c = of_char CHR 0x27 \<or> c = of_char CHR ''-''"

text \<open>\<^verbatim>\<open>[^\s@]\<close>\<close>

definition emailChar :: "nat \<Rightarrow> bool" where
  "emailChar c \<longleftrightarrow> \<not> (isWhiteSpace c \<or> c = of_char CHR ''@'')"

text \<open>\<^verbatim>\<open>[\d\s\-+()]\<close>\<close>

definition phoneChar :: "nat \<Rightarrow> bool" where
  "phoneChar c \<longleftrightarrow>
     isDigit c \<or> isWhiteSpace c \<or> c = of_char CHR ''-'' \<or> c = of_char CHR ''+'' \<or>
     c = of_char CHR ''('' \<or> c = of_char CHR '')''"

text \<open>\<^verbatim>\<open>[\da-z\.-]\<close>, \<^verbatim>\<open>[a-z\.]\<close> and \<^verbatim>\<open>[\/\w \.-]\<close>\<close>

definition domainChar :: "nat \<Rightarrow> bool" where
  "domainChar c \<longleftrightarrow> isDigit c \<or> isLower c \<or> c = of_char CHR ''.'' \<or> c = of_char CHR ''-''"

definition tldChar :: "nat \<Rightarrow> bool" where
  "tldChar c \<longleftrightarrow> isLower c \<or> c = of_char CHR ''.''"

definition pathChar :: "nat \<Rightarrow> bool" where
  "pathChar c \<longleftrightarrow>
     c = of_char CHR ''/'' \<or> isWord c \<or> c = of_char CHR '' '' \<or> c = of_char CHR ''.'' \<or>
     c = of_char CHR ''-''"

text \<open>\<^verbatim>\<open>/^[a-zA-Z\s'-]+$/\<close>\<close>

definition fullName_pattern :: rexp where
  "fullName_pattern = RPlus (RClass fullNameChar)"

definition fullName_minLength :: nat where
  "fullName_minLength = 2"

definition fullName_maxLength :: nat where
  "fullName_maxLength = 100"

text \<open>\<^verbatim>\<open>/^[^\s@]+@[^\s@]+\.[^\s@]+$/\<close>\<close>

definition email_pattern :: rexp where
  "email_pattern =
     RSeq (RPlus (RClass emailChar)) (RSeq (RChar CHR ''@'')
       (RSeq (RPlus (RClass emailChar)) (RSeq (RChar CHR ''.'') (RPlus (RClass emailChar)))))"

text \<open>\<^verbatim>\<open>/^[\d\s\-+()]+$/\<close>\<close>

definition phone_pattern :: rexp where
  "phone_pattern = RPlus (RClass phoneChar)"

definition phone_minLength :: nat where
  "phone_minLength = 10"

text \<open>\<^verbatim>\<open>/^\d+(\.\d+)?$/\<close>\<close>

definition yearsOfExperience_pattern :: rexp where
  "yearsOfExperience_pattern =
     RSeq (RPlus (RClass isDigit)) (ROpt (RSeq (RChar CHR ''.'') (RPlus (RClass isDigit))))"

text \<open>\<^verbatim>\<open>/^(https?:\/\/)?([\da-z\.-]+)\.([a-z\.]{2,6})([\/\w \.-]*)*\/?$/\<close>\<close>

definition portfolioLink_pattern :: rexp where
  "portfolioLink_pattern =
     RSeq (ROpt (RSeq (RLit ''http'') (RSeq (ROpt (RChar CHR ''s'')) (RLit ''://''))))
       (RSeq (RPlus (RClass domainChar))
         (RSeq (RChar CHR ''.'')
           (RSeq (RRep2to6 (RClass tldChar))
             (RSeq (RStar (RStar (RClass pathChar))) (ROpt (RChar CHR ''/''))))))"

definition skills_maxItems :: nat where
  "skills_maxItems = 20"

definition skills_maxLength :: nat where
  "skills_maxLength = 50"

definition resume_acceptedFormats :: "jsstring list" where
  "resume_acceptedFormats =
     [js ''application/pdf'', js ''application/msword'',
      js ''application/vnd.openxmlformats-officedocument.wordprocessingml.document'']"

definition resume_maxSize :: nat where
  "resume_maxSize = 5 * 1024 * 1024"

section \<open>Field validators (src/lib/validation.ts)\<close>

text \<open>\<^verbatim>\<open>{ valid: boolean; error?: string }\<close>\<close>

record Validation =
  valid :: bool
  error :: "string option"

definition ok :: Validation where
  "ok = \<lparr> valid = True, error = None \<rparr>"

definition fails :: "string \<Rightarrow> Validation" where
  "fails msg = \<lparr> valid = False, error = Some msg \<rparr>"

definition validateFullName :: "jsstring \<Rightarrow> Validation" where
  "validateFullName name =
     (if trim name = [] then fails ''Full name is required''
      else if length name < fullName_minLength then fails ''Full name must be at least 2 characters''
      else if length name > fullName_maxLength then fails ''Full name must not exceed 100 characters''
      else if \<not> matches fullName_pattern name
        then fails ''Full name can only contain letters, spaces, hyphens, and apostrophes''
      else ok)"

definition validateEmail :: "jsstring \<Rightarrow> Validation" where
  "validateEmail email' =
     (if trim email' = [] then fails ''Email is required''
      else if \<not> matches email_pattern email' then fails ''Please enter a valid email address''
      else ok)"

text \<open>\<^verbatim>\<open>phone.replace(/\D/g, '')\<close> keeps the digits.\<close>

definition validatePhone :: "jsstring \<Rightarrow> Validation" where
  "validatePhone phone' =
     (if trim phone' = [] then fails ''Phone number is required''
      else if \<not> matches phone_pattern phone' then fails ''Phone number contains invalid characters''
      else let digitsOnly = filter isDigit phone' in
        if length digitsOnly < phone_minLength
          then fails ''Phone number must contain at least 10 digits''
        else ok)"

text \<open>
  \<^verbatim>\<open>parseFloat\<close> is applied only to text of the shape digits, or digits, a dot and
  digits. Such text denotes the decimal \<open>(ip * 10^k + fp) / 10^k\<close>, where \<open>ip\<close> and
  \<open>fp\<close> are the values of the integer and the fraction digits and \<open>k\<close> is the number
  of fraction digits; \<^verbatim>\<open>parseFloat\<close> returns the double nearest to it, ties to even.
  The least double above 80 is \<open>80 + 2^-46\<close>, and 80 has an even significand, so the
  result exceeds 80 exactly when the decimal exceeds the midpoint \<open>80 + 2^-47\<close>. The
  result is never negative.
\<close>

definition digitsValue :: "jsstring \<Rightarrow> nat" where
  "digitsValue ds = foldl (\<lambda>acc c. 10 * acc + (c - of_char CHR ''0'')) 0 ds"

definition parseFloat_exceeds_80 :: "jsstring \<Rightarrow> bool" where
  "parseFloat_exceeds_80 s =
     (let ip = takeWhile isDigit s;
          fp = drop 1 (dropWhile isDigit s);
          k = length fp
      in (digitsValue ip * 10 ^ k + digitsValue fp) * 2 ^ 47 > (80 * 2 ^ 47 + 1) * 10 ^ k)"

definition validateYearsOfExperience :: "jsstring \<Rightarrow> Validation" where
  "validateYearsOfExperience years =
     (if trim years = [] then fails ''Years of experience is required''
      else if \<not> matches yearsOfExperience_pattern years
        then fails ''Years of experience must be a valid number''
      else if parseFloat_exceeds_80 years
        then fails ''Years of experience must be between 0 and 80''
      else ok)"

definition validateSkills :: "jsstring list \<Rightarrow> Validation" where
  "validateSkills skills' =
     (if length skills' = 0 then fails ''Please add at least one skill''
      else if length skills' > skills_maxItems then fails ''Maximum 20 skills allowed''
      else if \<exists>skill \<in> set skills'. length skill > skills_maxLength
        then fails ''Each skill must not exceed 50 characters''
      else ok)"

definition validatePortfolioLink :: "jsstring \<Rightarrow> Validation" where
  "validatePortfolioLink link =
     (if trim link = [] then ok
      else if \<not> matches portfolioLink_pattern link then fails ''Please enter a valid portfolio URL''
      else ok)"

definition validateResume :: "File option \<Rightarrow> Validation" where
  "validateResume file =
     (case file of
        None \<Rightarrow> fails ''Resume is required''
      | Some f \<Rightarrow>
          if type_f f \<notin> set resume_acceptedFormats
            then fails ''Resume must be PDF, DOC, or DOCX format''
          else if size_f f > resume_maxSize then fails ''Resume must not exceed 5MB''
          else ok)"

section \<open>Step validators (src/lib/validation.ts)\<close>

text \<open>
  \<^verbatim>\<open>errors\<close> starts empty and each key is assigned at most once, so it is the list
  of its entries in assignment order. \<^verbatim>\<open>nameValidation.error || ''\<close> is the message,
  or the empty text when there is none.
\<close>

record StepValidation =
  valid_s :: bool
  errors_s :: "(string \<times> string) list"

definition errorOr :: "Validation \<Rightarrow> string \<Rightarrow> string" where
  "errorOr v dflt = (case error v of None \<Rightarrow> dflt | Some msg \<Rightarrow> if msg = [] then dflt else msg)"

definition errorEntry :: "string \<Rightarrow> Validation \<Rightarrow> (string \<times> string) list" where
  "errorEntry field v = (if \<not> valid v then [(field, errorOr v [])] else [])"

definition validatePersonalInfoStep :: "jsstring \<Rightarrow> jsstring \<Rightarrow> jsstring \<Rightarrow> StepValidation" where
  "validatePersonalInfoStep fullName' email' phone' =
     (let errors =
            errorEntry ''fullName'' (validateFullName fullName') @
            errorEntry ''email'' (validateEmail email') @
            errorEntry ''phone'' (validatePhone phone')
      in \<lparr> valid_s = (length errors = 0), errors_s = errors \<rparr>)"

definition validateExperienceStep :: "jsstring \<Rightarrow> jsstring list \<Rightarrow> jsstring \<Rightarrow> StepValidation" where
  "validateExperienceStep yearsOfExperience' skills' portfolioLink' =
     (let errors =
            errorEntry ''yearsOfExperience'' (validateYearsOfExperience yearsOfExperience') @
            errorEntry ''skills'' (validateSkills skills') @
            errorEntry ''portfolioLink'' (validatePortfolioLink portfolioLink')
      in \<lparr> valid_s = (length errors = 0), errors_s = errors \<rparr>)"

definition validateResumeStep :: "File option \<Rightarrow> StepValidation" where
  "validateResumeStep file =
     (let errors = errorEntry ''resume'' (validateResume file)
      in \<lparr> valid_s = (length errors = 0), errors_s = errors \<rparr>)"

section \<open>Application identifiers (src/lib/validation.ts)\<close>

text \<open>
  \<^verbatim>\<open>Number.prototype.toString(36)\<close> of a non-negative integer such as
  \<^verbatim>\<open>Date.now()\<close>: the base-36 digits \<^verbatim>\<open>0-9a-z\<close>, most significant first.
\<close>

definition digit36 :: "nat \<Rightarrow> char" where
  "digit36 d = (if d < 10 then char_of (of_char CHR ''0'' + d) else char_of (of_char CHR ''a'' + (d - 10)))"

fun toString36 :: "nat \<Rightarrow> string" where
  "toString36 n = (if n < 36 then [digit36 n] else toString36 (n div 36) @ [digit36 (n mod 36)])"

declare toString36.simps [simp del]

text \<open>Reading base-36 digits back: the number a digit text denotes.\<close>

definition digitValue36 :: "char \<Rightarrow> nat" where
  "digitValue36 ch =
     (let c = (of_char ch :: nat)
      in if c \<le> of_char CHR ''9'' then c - of_char CHR ''0'' else c - of_char CHR ''a'' + 10)"

definition fromString36 :: "string \<Rightarrow> nat" where
  "fromString36 s = foldl (\<lambda>acc ch. 36 * acc + digitValue36 ch) 0 s"

text \<open>\<^verbatim>\<open>toUpperCase\<close> on ASCII text: \<^verbatim>\<open>a-z\<close> become \<^verbatim>\<open>A-Z\<close>.\<close>

definition upperChar :: "char \<Rightarrow> char" where
  "upperChar ch =
     (let c = (of_char ch :: nat)
      in if of_char CHR ''a'' \<le> c \<and> c \<le> of_char CHR ''z'' then char_of (c - 32) else ch)"

definition toUpperCase :: "string \<Rightarrow> string" where
  "toUpperCase s = map upperChar s"

text \<open>\<^verbatim>\<open>s.substring(start, end)\<close> and \<^verbatim>\<open>s.substr(start, length)\<close> for \<open>start \<le> end\<close>.\<close>

definition substring :: "nat \<Rightarrow> nat \<Rightarrow> 'a list \<Rightarrow> 'a list" where
  "substring start end' s = take (end' - start) (drop start s)"

definition substr :: "nat \<Rightarrow> nat \<Rightarrow> 'a list \<Rightarrow> 'a list" where
  "substr start len s = take len (drop start s)"

text \<open>
  The two sources of \<^verbatim>\<open>generateApplicationId\<close> are parameters: \<open>dateNow\<close> is
  \<^verbatim>\<open>Date.now()\<close> and \<open>randomText\<close> is the text \<^verbatim>\<open>Math.random().toString(36)\<close>,
  which is \<^verbatim>\<open>0\<close> for the number 0 and otherwise \<^verbatim>\<open>0.\<close> followed by the base-36
  fraction digits of the number (\<^verbatim>\<open>0.i\<close> for 0.5, since 18/36 = 0.5).
\<close>

definition generateApplicationId :: "nat \<Rightarrow> string \<Rightarrow> string" where
  "generateApplicationId dateNow randomText =
     (let timestamp = toUpperCase (toString36 dateNow);
          random = toUpperCase (substring 2 10 randomText)
      in ''HLA-'' @ random @ ''-'' @ timestamp)"

text \<open>
  The documented format of \<^verbatim>\<open>generateApplicationId\<close>: the prefix, a segment of
  exactly eight upper-case base-36 digits, and a segment of upper-case base-36 digits.
\<close>

definition isBase36Upper :: "char \<Rightarrow> bool" where
  "isBase36Upper ch =
     (let c = (of_char ch :: nat)
      in (of_char CHR ''0'' \<le> c \<and> c \<le> of_char CHR ''9'') \<or> (of_char CHR ''A'' \<le> c \<and> c \<le> of_char CHR ''Z''))"

definition matchesIdFormat :: "string \<Rightarrow> bool" where
  "matchesIdFormat s =
     (let segA = take 8 (drop 4 s); segB = drop 13 s
      in take 4 s = ''HLA-'' \<and> length segA = 8 \<and> list_all isBase36Upper segA \<and>
         take 1 (drop 12 s) = ''-'' \<and> segB \<noteq> [] \<and> list_all isBase36Upper segB)"

section \<open>Resume step: submission (ResumeStep component)\<close>

text \<open>
  What \<^verbatim>\<open>handleSubmit\<close> reads from outside: the clock, the two random texts and the
  ISO date text.
\<close>

record SubmitEnv =
  dateNow :: nat
  randomApplication :: string
  randomId :: string
  isoDate :: string

text \<open>
  The component's local state, and the route pushed to the router, if any.
  \<^verbatim>\<open>handleSubmit\<close> runs to completion on its own (the program is single-threaded and
  the awaited delay changes nothing), so the form, the selected job and the job
  postings it reads are those of the store it is called on. The \<^verbatim>\<open>try\<close> block
  catches a missing job posting and any fault of \<^verbatim>\<open>addCandidate\<close>.
\<close>

record ResumeStepState =
  error_r :: string
  isSubmitting :: bool
  pushed :: "string option"

definition handleSubmit ::
  "SubmitEnv \<Rightarrow> HireLinkStore \<times> ResumeStepState \<Rightarrow> HireLinkStore \<times> ResumeStepState" where
  "handleSubmit env st =
     (let state = fst st; ui = snd st;
          validation = validateResume (resumeFile (applicationForm state))
      in if \<not> valid validation
         then (state, ui\<lparr>error_r := errorOr validation ''Resume is required''\<rparr>)
         else
           let ui1 = ui\<lparr>isSubmitting := True\<rparr>;
               failed = (state, ui1\<lparr>error_r := ''Failed to submit application. Please try again.'',
                                     isSubmitting := False\<rparr>);
               applicationId' = generateApplicationId (dateNow env) (randomApplication env)
           in case find (\<lambda>j. Some (id_j j) = selectedJobId state) (jobPostings state) of
                None \<Rightarrow> failed
              | Some selectedJob \<Rightarrow>
                  let candidate =
                        \<lparr> id_c = substr 2 9 (randomId env),
                          applicationId = applicationId',
                          jobId = (case selectedJobId state of None \<Rightarrow> [] | Some i \<Rightarrow> i),
                          jobTitle = title selectedJob,
                          applicationData = applicationForm state,
                          appliedDate = isoDate env,
                          stage = Applied,
                          score = None,
                          notes_c = Some [],
                          interviewDate = None,
                          interviewTime = None,
                          offerDetails = None \<rparr>
                  in (case addCandidate candidate state of
                        Inl e \<Rightarrow> failed
                      | Inr state' \<Rightarrow> (state', ui1\<lparr>pushed := Some (''/thank-you/'' @ applicationId')\<rparr>)))"

text \<open>The page's step buttons (src/app/apply/[jobId]/page.tsx).\<close>

definition handleNextStep :: "HireLinkStore \<Rightarrow> HireLinkStore" where
  "handleNextStep state =
     (if currentStep state < 2 then setCurrentStep (currentStep state + 1) state else state)"

definition handlePreviousStep :: "HireLinkStore \<Rightarrow> HireLinkStore" where
  "handlePreviousStep state =
     (if currentStep state > 0 then setCurrentStep (currentStep state - 1) state else state)"

section \<open>Experience step: skills (ExperienceStep component)\<close>

text \<open>
  The component's local state: the error messages by field name, and the text of the
  skill input. The skills are read from the store's form.
\<close>

record ExperienceStepState =
  errors_e :: "string \<rightharpoonup> string"
  skillInput :: jsstring

definition noFormUpdates :: ApplicationFormUpdates where
  "noFormUpdates =
     \<lparr> personalInfo_u = None, experience_u = None, resumeFile_u = None, resumeFileName_u = None \<rparr>"

definition handleAddSkill ::
  "HireLinkStore \<times> ExperienceStepState \<Rightarrow> HireLinkStore \<times> ExperienceStepState" where
  "handleAddSkill st =
     (let state = fst st; ui = snd st;
          skills' = skills (experience (applicationForm state));
          trimmedSkill = trim (skillInput ui)
      in if trimmedSkill = []
           then (state, ui\<lparr>errors_e := (errors_e ui)(''skillInput'' \<mapsto> ''Please enter a skill'')\<rparr>)
         else if length trimmedSkill > 50
           then (state, ui\<lparr>errors_e := (errors_e ui)(''skillInput'' \<mapsto> ''Skill must not exceed 50 characters'')\<rparr>)
         else if trimmedSkill \<in> set skills'
           then (state, ui\<lparr>errors_e := (errors_e ui)(''skillInput'' \<mapsto> ''This skill is already added'')\<rparr>)
         else if length skills' \<ge> 20
           then (state, ui\<lparr>errors_e := (errors_e ui)(''skillInput'' \<mapsto> ''Maximum 20 skills allowed'')\<rparr>)
         else
           (setApplicationForm
              (noFormUpdates\<lparr>experience_u :=
                 Some ((experience (applicationForm state))\<lparr>skills := skills' @ [trimmedSkill]\<rparr>)\<rparr>)
              state,
            ui\<lparr>skillInput := [], errors_e := (errors_e ui)(''skillInput'' \<mapsto> [])\<rparr>))"

definition handleRemoveSkill ::
  "jsstring \<Rightarrow> HireLinkStore \<times> ExperienceStepState \<Rightarrow> HireLinkStore \<times> ExperienceStepState" where
  "handleRemoveSkill skillToRemove st =
     (let state = fst st; ui = snd st;
          skills' = skills (experience (applicationForm state))
      in (setApplicationForm
            (noFormUpdates\<lparr>experience_u :=
               Some ((experience (applicationForm state))\<lparr>skills := filter (\<lambda>skill. skill \<noteq> skillToRemove) skills'\<rparr>)\<rparr>)
            state,
          ui))"

text \<open>
  The skill operations of the wizard: typing into the skill input, the add button and
  the remove button of a skill.
\<close>

datatype SkillOp = TypeSkill jsstring | AddSkill | RemoveSkill jsstring

fun skillStep :: "SkillOp \<Rightarrow> HireLinkStore \<times> ExperienceStepState \<Rightarrow> HireLinkStore \<times> ExperienceStepState" where
  "skillStep (TypeSkill text) st = (fst st, (snd st)\<lparr>skillInput := text\<rparr>)"
| "skillStep AddSkill st = handleAddSkill st"
| "skillStep (RemoveSkill skill) st = handleRemoveSkill skill st"

fun skillRun :: "SkillOp list \<Rightarrow> HireLinkStore \<times> ExperienceStepState \<Rightarrow> HireLinkStore \<times> ExperienceStepState" where
  "skillRun [] st = st"
| "skillRun (ev # evs) st = skillRun evs (skillStep ev st)"

definition initialExperienceStepState :: ExperienceStepState where
  "initialExperienceStepState = \<lparr> errors_e = Map.empty, skillInput = [] \<rparr>"

definition skillsOf :: "HireLinkStore \<times> ExperienceStepState \<Rightarrow> jsstring list" where
  "skillsOf st = skills (experience (applicationForm (fst st)))"

section \<open>Pipeline board (src/components/PipelineBoard.tsx)\<close>

record PipelineStage =
  id_p :: string
  label :: string
  color :: string

definition PIPELINE_STAGES :: "PipelineStage list" where
  "PIPELINE_STAGES =
     [ \<lparr> id_p = ''Applied'', label = ''Applied'', color = ''bg-blue-50 dark:bg-blue-950'' \<rparr>,
       \<lparr> id_p = ''Reviewed'', label = ''Reviewed'', color = ''bg-yellow-50 dark:bg-yellow-950'' \<rparr>,
       \<lparr> id_p = ''Interview Scheduled'', label = ''Interview Scheduled'',
         color = ''bg-purple-50 dark:bg-purple-950'' \<rparr>,
       \<lparr> id_p = ''Offer Sent'', label = ''Offer Sent'', color = ''bg-green-50 dark:bg-green-950'' \<rparr> ]"

definition getCandidatesByStage :: "Candidate list \<Rightarrow> string \<Rightarrow> Candidate list" where
  "getCandidatesByStage candidates' stage' = filter (\<lambda>c. stage_text (stage c) = stage') candidates'"

text \<open>The board: one bucket for each entry of \<^verbatim>\<open>PIPELINE_STAGES\<close>, in that order.\<close>

definition groupByStage :: "Candidate list \<Rightarrow> Candidate list list" where
  "groupByStage candidates' = map (\<lambda>st. getCandidatesByStage candidates' (id_p st)) PIPELINE_STAGES"

section \<open>Recruiter actions (CandidateModal, InterviewScheduler, OfferLetter)\<close>











section \<open>Merging, field by field\<close>

text \<open>
  A field after an update: it has the given value when the update names it, and is
  unchanged when the update does not name it.
\<close>

definition field_merged :: "'a option \<Rightarrow> 'a \<Rightarrow> 'a \<Rightarrow> bool" where
  "field_merged upd old new = (case upd of None \<Rightarrow> new = old | Some v \<Rightarrow> new = v)"

definition candidate_merged :: "CandidateUpdates \<Rightarrow> Candidate \<Rightarrow> Candidate \<Rightarrow> bool" where
  "candidate_merged u c c' \<longleftrightarrow>
     field_merged (id_u u) (id_c c) (id_c c') \<and>
     field_merged (applicationId_u u) (applicationId c) (applicationId c') \<and>
     field_merged (jobId_u u) (jobId c) (jobId c') \<and>
     field_merged (jobTitle_u u) (jobTitle c) (jobTitle c') \<and>
     field_merged (applicationData_u u) (applicationData c) (applicationData c') \<and>
     field_merged (appliedDate_u u) (appliedDate c) (appliedDate c') \<and>
     field_merged (stage_u u) (stage c) (stage c') \<and>
     field_merged (score_u u) (score c) (score c') \<and>
     field_merged (notes_u u) (notes_c c) (notes_c c') \<and>
     field_merged (interviewDate_u u) (interviewDate c) (interviewDate c') \<and>
     field_merged (interviewTime_u u) (interviewTime c) (interviewTime c') \<and>
     field_merged (offerDetails_u u) (offerDetails c) (offerDetails c')"

section \<open>Skill list: invariant and examples\<close>

text \<open>
  What holds of every skill list the add and remove buttons can produce: at most 20
  entries, no entry twice, every entry non-empty and at most 50 code units long.
\<close>

definition skillsInv :: "jsstring list \<Rightarrow> bool" where
  "skillsInv sk \<longleftrightarrow> length sk \<le> 20 \<and> distinct sk \<and> (\<forall>k \<in> set sk. k \<noteq> [] \<and> length k \<le> 50)"

text \<open>The message shown under the skill input (\<^verbatim>\<open>errors.skillInput\<close>).\<close>

definition skillError :: "HireLinkStore \<times> ExperienceStepState \<Rightarrow> string option" where
  "skillError st = errors_e (snd st) ''skillInput''"

text \<open>Typing and adding the twenty one-letter skills \<open>a\<close> to \<open>t\<close>.\<close>

definition exampleSkillOps :: "SkillOp list" where
  "exampleSkillOps = concat (map (\<lambda>c. [TypeSkill [c], AddSkill]) (js ''abcdefghijklmnopqrst''))"

section \<open>An example application\<close>

text \<open>A draft that passes every validator, submitted for job \<open>1\<close> from the resume step.\<close>

definition exampleFile :: File where
  "exampleFile = \<lparr> name_f = js ''cv.pdf'', size_f = 120000, type_f = js ''application/pdf'' \<rparr>"

definition exampleDraft :: ApplicationForm where
  "exampleDraft =
     \<lparr> personalInfo = \<lparr> fullName = js ''Ada Lovelace'', email = js ''ada@example.com'',
                         phone = js ''(555) 123-4567'' \<rparr>,
       experience = \<lparr> yearsOfExperience = js ''7.5'', skills = [js ''React''], portfolioLink = [] \<rparr>,
       resumeFile = Some exampleFile,
       resumeFileName = js ''cv.pdf'' \<rparr>"

definition exampleStore :: HireLinkStore where
  "exampleStore = initialStore\<lparr>currentStep := 2, applicationForm := exampleDraft, selectedJobId := Some ''1''\<rparr>"

definition exampleEnv :: SubmitEnv where
  "exampleEnv = \<lparr> dateNow = 1767225600000, randomApplication = ''0.4fzyo82mvyr'',
                   randomId = ''0.k3qz7d1x9ab'', isoDate = ''2026-01-01T00:00:00.000Z'' \<rparr>"

definition initialResumeStepState :: ResumeStepState where
  "initialResumeStepState = \<lparr> error_r = [], isSubmitting = False, pushed = None \<rparr>"

section \<open>Stage order on the dashboard\<close>





section \<open>Full name: the claimed condition\<close>

text \<open>
  The condition that C5 states for a valid full name, in the claim's words: the
  trimmed text has between 2 and 100 characters, and every character is a letter, a
  space, a hyphen or an apostrophe (letters and spaces as the pattern has them).
\<close>

definition checkFullName_claimed :: "jsstring \<Rightarrow> bool" where
  "checkFullName_claimed s \<longleftrightarrow>
     2 \<le> length (trim s) \<and> length (trim s) \<le> 100 \<and> list_all fullNameChar s"

section \<open>Sequences of insertions, and a store with a repeated id\<close>

text \<open>Calling \<open>addCandidate\<close> for each record of a list, in the order of the list.\<close>

fun addCandidates :: "Candidate list \<Rightarrow> HireLinkStore \<Rightarrow> store_result" where
  "addCandidates [] state = Inr state"
| "addCandidates (c # cs) state =
     (case addCandidate c state of Inl e \<Rightarrow> Inl e | Inr state' \<Rightarrow> addCandidates cs state')"






section \<open>Candidate store: insertion and update\<close>

lemma mergeCandidate_fields:
  "id_c (mergeCandidate c u) = (case id_u u of None \<Rightarrow> id_c c | Some v \<Rightarrow> v)"
  "applicationId (mergeCandidate c u) = (case applicationId_u u of None \<Rightarrow> applicationId c | Some v \<Rightarrow> v)"
  "jobId (mergeCandidate c u) = (case jobId_u u of None \<Rightarrow> jobId c | Some v \<Rightarrow> v)"
  "jobTitle (mergeCandidate c u) = (case jobTitle_u u of None \<Rightarrow> jobTitle c | Some v \<Rightarrow> v)"
  "applicationData (mergeCandidate c u) = (case applicationData_u u of None \<Rightarrow> applicationData c | Some v \<Rightarrow> v)"
  "appliedDate (mergeCandidate c u) = (case appliedDate_u u of None \<Rightarrow> appliedDate c | Some v \<Rightarrow> v)"
  "stage (mergeCandidate c u) = (case stage_u u of None \<Rightarrow> stage c | Some v \<Rightarrow> v)"
  "score (mergeCandidate c u) = (case score_u u of None \<Rightarrow> score c | Some v \<Rightarrow> v)"
  "notes_c (mergeCandidate c u) = (case notes_u u of None \<Rightarrow> notes_c c | Some v \<Rightarrow> v)"
  "interviewDate (mergeCandidate c u) = (case interviewDate_u u of None \<Rightarrow> interviewDate c | Some v \<Rightarrow> v)"
  "interviewTime (mergeCandidate c u) = (case interviewTime_u u of None \<Rightarrow> interviewTime c | Some v \<Rightarrow> v)"
  "offerDetails (mergeCandidate c u) = (case offerDetails_u u of None \<Rightarrow> offerDetails c | Some v \<Rightarrow> v)"
  by (simp_all add: mergeCandidate_def)

lemma map_unchanged: "(\<And>x. x \<in> set xs \<Longrightarrow> f x = x) \<Longrightarrow> map f xs = xs"
  by (induction xs) auto

text \<open>
  C1, as stated, fails: inserting a record whose id is already present does not fail
  with \<open>DUPLICATE_ID\<close>, and the store does not retain only the first record. Here the
  store holds one record with id \<open>a\<close>; inserting another record with id \<open>a\<close> succeeds
  and leaves both in the collection.
\<close>

theorem addCandidate_duplicate_counterexample:
  "addCandidate (exampleCandidate ''a'' Reviewed)
     (initialStore\<lparr>candidates := [exampleCandidate ''a'' Applied]\<rparr>)
   = Inr (initialStore\<lparr>candidates := [exampleCandidate ''a'' Reviewed, exampleCandidate ''a'' Applied]\<rparr>)
   \<and> id_c (exampleCandidate ''a'' Reviewed) = id_c (exampleCandidate ''a'' Applied)
   \<and> addCandidate (exampleCandidate ''a'' Reviewed)
     (initialStore\<lparr>candidates := [exampleCandidate ''a'' Applied]\<rparr>) \<noteq> Inl DUPLICATE_ID"
  by (simp add: addCandidate_def exampleCandidate_def)

text \<open>
  C1, amended: for every store state and every candidate record, also one whose id
  equals the id of a record already present, \<open>addCandidate\<close> does not fail; it puts the
  record in front of the collection, keeps every record that was there, in the same
  order, and changes nothing else in the store.
\<close>

theorem addCandidate_never_fails:
  "\<exists>s'. addCandidate c s = Inr s' \<and> candidates s' = c # candidates s \<and>
        set (candidates s) \<subseteq> set (candidates s') \<and>
        currentStep s' = currentStep s \<and> applicationForm s' = applicationForm s \<and>
        jobPostings s' = jobPostings s \<and> selectedJobId s' = selectedJobId s \<and>
        userRole s' = userRole s"
  by (auto simp add: addCandidate_def)

lemma addCandidates_result:
  "addCandidates cs s = Inr (s\<lparr>candidates := rev cs @ candidates s\<rparr>)"
  by (induction cs arbitrary: s) (simp_all add: addCandidate_def)

lemma find_skip: "(\<And>x. x \<in> set xs \<Longrightarrow> \<not> P x) \<Longrightarrow> find P (xs @ ys) = find P ys"
  by (induction xs) simp_all

text \<open>
  C10: when \<open>addCandidate\<close> is called twice with records that share an id, the store
  afterwards contains both records, the second in front of the first, and
  \<open>getCandidateById\<close> with that id returns the second, most recently inserted record,
  not the first: it returns the first record with that id in the newest-first order,
  also when records with other ids have been inserted later and stand in front of it.
\<close>

theorem addCandidate_same_id_keeps_both:
  assumes "id_c c2 = id_c c1" and "\<forall>c \<in> set later. id_c c \<noteq> id_c c1"
  shows "\<exists>s1 s2 s3. addCandidate c1 s = Inr s1 \<and> addCandidate c2 s1 = Inr s2 \<and>
           addCandidates later s2 = Inr s3 \<and>
           candidates s3 = rev later @ c2 # c1 # candidates s \<and>
           getCandidateById (id_c c1) s3 = Some c2"
proof -
  define s1 where "s1 = s\<lparr>candidates := c1 # candidates s\<rparr>"
  define s2 where "s2 = s1\<lparr>candidates := c2 # candidates s1\<rparr>"
  define s3 where "s3 = s2\<lparr>candidates := rev later @ candidates s2\<rparr>"
  have a1: "addCandidate c1 s = Inr s1" and a2: "addCandidate c2 s1 = Inr s2"
    by (simp_all add: addCandidate_def s1_def s2_def)
  have a3: "addCandidates later s2 = Inr s3"
    by (simp add: addCandidates_result s3_def)
  have cs: "candidates s3 = rev later @ c2 # c1 # candidates s"
    by (simp add: s3_def s2_def s1_def)
  have "find (\<lambda>c. id_c c = id_c c1) (rev later @ c2 # c1 # candidates s)
        = find (\<lambda>c. id_c c = id_c c1) (c2 # c1 # candidates s)"
    using assms(2) by (intro find_skip) simp
  then have look: "getCandidateById (id_c c1) s3 = Some c2"
    using assms(1) by (simp add: getCandidateById_def cs)
  show ?thesis
    using a1 a2 a3 cs look by blast
qed

text \<open>
  The instance of C10 at two different records with id \<open>a\<close> inserted into the initial
  store, followed by a record with id \<open>b\<close>: the lookup of \<open>a\<close> passes over \<open>b\<close> and
  returns the reviewed record, the later of the two.
\<close>

theorem addCandidate_same_id_keeps_both_witness:
  "id_c (exampleCandidate ''a'' Reviewed) = id_c (exampleCandidate ''a'' Applied) \<and>
   exampleCandidate ''a'' Reviewed \<noteq> exampleCandidate ''a'' Applied \<and>
   id_c (exampleCandidate ''b'' Applied) \<noteq> id_c (exampleCandidate ''a'' Applied) \<and>
   (\<exists>s1 s2 s3. addCandidate (exampleCandidate ''a'' Applied) initialStore = Inr s1 \<and>
      addCandidate (exampleCandidate ''a'' Reviewed) s1 = Inr s2 \<and>
      addCandidates [exampleCandidate ''b'' Applied] s2 = Inr s3 \<and>
      candidates s3 = [exampleCandidate ''b'' Applied, exampleCandidate ''a'' Reviewed,
                       exampleCandidate ''a'' Applied] \<and>
      getCandidateById ''a'' s3 = Some (exampleCandidate ''a'' Reviewed))"
proof -
  have ids: "id_c (exampleCandidate ''a'' Reviewed) = id_c (exampleCandidate ''a'' Applied)"
    "\<forall>c \<in> set [exampleCandidate ''b'' Applied]. id_c c \<noteq> id_c (exampleCandidate ''a'' Applied)"
    by (simp_all add: exampleCandidate_def)
  show ?thesis
    using addCandidate_same_id_keeps_both [OF ids, of initialStore]
    by (simp add: exampleCandidate_def initialStore_def)
qed

text \<open>
  C4, as stated, fails: updating an id that no record has does not fail with
  \<open>NOT_FOUND\<close>. Here the store holds one record with id \<open>a\<close>; the update of id \<open>zz\<close>
  succeeds (and leaves the store as it was).
\<close>

theorem updateCandidate_absent_counterexample:
  "updateCandidate ''zz'' (noUpdates\<lparr>stage_u := Some Reviewed\<rparr>)
     (initialStore\<lparr>candidates := [exampleCandidate ''a'' Applied]\<rparr>)
   = Inr (initialStore\<lparr>candidates := [exampleCandidate ''a'' Applied]\<rparr>)
   \<and> updateCandidate ''zz'' (noUpdates\<lparr>stage_u := Some Reviewed\<rparr>)
     (initialStore\<lparr>candidates := [exampleCandidate ''a'' Applied]\<rparr>) \<noteq> Inl NOT_FOUND"
  by (simp add: updateCandidate_def exampleCandidate_def)

text \<open>
  C4, amended: for every store state and every id not present in the collection,
  \<open>updateCandidate\<close> does not fail and leaves the store, and so the candidate collection,
  unchanged: no record is added, removed, modified or reordered.
\<close>

theorem updateCandidate_absent_no_op:
  assumes "ident \<notin> id_c ` set (candidates s)"
  shows "updateCandidate ident updates s = Inr s"
proof -
  have "map (\<lambda>candidate. if id_c candidate = ident then mergeCandidate candidate updates else candidate)
          (candidates s) = candidates s"
    using assms by (intro map_unchanged) auto
  then show ?thesis by (simp add: updateCandidate_def)
qed

text \<open>The instance of the amended C4 at the store with one record \<open>a\<close> and the id \<open>zz\<close>.\<close>

theorem updateCandidate_absent_no_op_witness:
  "''zz'' \<notin> id_c ` set (candidates (initialStore\<lparr>candidates := [exampleCandidate ''a'' Applied]\<rparr>)) \<and>
   updateCandidate ''zz'' (noUpdates\<lparr>stage_u := Some Reviewed\<rparr>)
     (initialStore\<lparr>candidates := [exampleCandidate ''a'' Applied]\<rparr>)
   = Inr (initialStore\<lparr>candidates := [exampleCandidate ''a'' Applied]\<rparr>)"
  using updateCandidate_absent_no_op
    [of "''zz''" "initialStore\<lparr>candidates := [exampleCandidate ''a'' Applied]\<rparr>"
        "noUpdates\<lparr>stage_u := Some Reviewed\<rparr>"]
  by (simp add: exampleCandidate_def)

lemma field_merged_case: "field_merged upd old (case upd of None \<Rightarrow> old | Some v \<Rightarrow> v)"
  by (simp add: field_merged_def split: option.split)

lemma candidate_merged_mergeCandidate: "candidate_merged u c (mergeCandidate c u)"
  unfolding candidate_merged_def mergeCandidate_fields
  by (intro conjI field_merged_case)

text \<open>
  C9, as stated, fails on a store in which two records share the id: the update is
  merged into both, so a record other than the one meant is changed. Here two records
  with id \<open>a\<close> are inserted and the score of \<open>a\<close> is set: both records get the score.
\<close>

theorem updateCandidate_duplicate_counterexample:
  "addCandidate (exampleCandidate ''a'' Applied) initialStore
     = Inr (initialStore\<lparr>candidates := [exampleCandidate ''a'' Applied]\<rparr>) \<and>
   addCandidate (exampleCandidate ''a'' Reviewed) (initialStore\<lparr>candidates := [exampleCandidate ''a'' Applied]\<rparr>)
     = Inr (initialStore\<lparr>candidates := [exampleCandidate ''a'' Reviewed, exampleCandidate ''a'' Applied]\<rparr>) \<and>
   updateCandidate ''a'' (noUpdates\<lparr>score_u := Some (Some 4)\<rparr>)
     (initialStore\<lparr>candidates := [exampleCandidate ''a'' Reviewed, exampleCandidate ''a'' Applied]\<rparr>)
     = Inr (initialStore\<lparr>candidates :=
              [(exampleCandidate ''a'' Reviewed)\<lparr>score := Some 4\<rparr>,
               (exampleCandidate ''a'' Applied)\<lparr>score := Some 4\<rparr>]\<rparr>) \<and>
   (exampleCandidate ''a'' Reviewed)\<lparr>score := Some 4\<rparr> \<noteq> exampleCandidate ''a'' Reviewed \<and>
   (exampleCandidate ''a'' Applied)\<lparr>score := Some 4\<rparr> \<noteq> exampleCandidate ''a'' Applied"
  by (simp add: addCandidate_def updateCandidate_def mergeCandidate_def noUpdates_def
      exampleCandidate_def initialStore_def)

text \<open>
  C9, amended: for every store state that contains a record with the given id, and
  every partial set of update fields, \<open>updateCandidate\<close> succeeds; in every record with
  that id (all of them, when several share it) the fields named in the update take the
  given values and the fields not named are unchanged; every record with another id is
  unchanged; the collection keeps its length and its order, and the rest of the store
  is unchanged.
\<close>

theorem updateCandidate_merges:
  assumes "ident \<in> id_c ` set (candidates s)"
  shows "\<exists>s'. updateCandidate ident u s = Inr s' \<and>
           length (candidates s') = length (candidates s) \<and>
           (\<forall>i < length (candidates s).
              if id_c (candidates s ! i) = ident
              then candidate_merged u (candidates s ! i) (candidates s' ! i)
              else candidates s' ! i = candidates s ! i) \<and>
           currentStep s' = currentStep s \<and> applicationForm s' = applicationForm s \<and>
           jobPostings s' = jobPostings s \<and> selectedJobId s' = selectedJobId s \<and>
           userRole s' = userRole s"
  by (simp add: updateCandidate_def candidate_merged_mergeCandidate)

text \<open>
  The instance of the amended C9 at a store with records \<open>b\<close> and \<open>a\<close> and an update
  that names the score only.
\<close>

theorem updateCandidate_merges_witness:
  "''a'' \<in> id_c ` set [exampleCandidate ''b'' Applied, exampleCandidate ''a'' Applied] \<and>
   (\<exists>s'. updateCandidate ''a'' (noUpdates\<lparr>score_u := Some (Some 4)\<rparr>)
            (initialStore\<lparr>candidates := [exampleCandidate ''b'' Applied, exampleCandidate ''a'' Applied]\<rparr>) = Inr s' \<and>
      candidates s' = [exampleCandidate ''b'' Applied, (exampleCandidate ''a'' Applied)\<lparr>score := Some 4\<rparr>])"
  using updateCandidate_merges [of "''a''"
     "initialStore\<lparr>candidates := [exampleCandidate ''b'' Applied, exampleCandidate ''a'' Applied]\<rparr>"
     "noUpdates\<lparr>score_u := Some (Some 4)\<rparr>"]
  by (simp add: updateCandidate_def exampleCandidate_def mergeCandidate_def noUpdates_def)

section \<open>Pipeline projection\<close>

lemma PIPELINE_STAGES_ids:
  "map id_p PIPELINE_STAGES = map stage_text [Applied, Reviewed, InterviewScheduled, OfferSent]"
  by (simp add: PIPELINE_STAGES_def)

lemma stage_text_inj: "stage_text a = stage_text b \<longleftrightarrow> a = b"
  by (cases a; cases b) simp_all

lemma groupByStage_eq:
  "groupByStage cs =
     [filter (\<lambda>c. stage c = Applied) cs, filter (\<lambda>c. stage c = Reviewed) cs,
      filter (\<lambda>c. stage c = InterviewScheduled) cs, filter (\<lambda>c. stage c = OfferSent) cs]"
proof -
  have "\<And>st. getCandidatesByStage cs (stage_text st) = filter (\<lambda>c. stage c = st) cs"
    by (simp add: getCandidatesByStage_def stage_text_inj)
  from this[of Applied] this[of Reviewed] this[of InterviewScheduled] this[of OfferSent]
  show ?thesis
    by (simp add: groupByStage_def PIPELINE_STAGES_def)
qed

lemma stage_filter_lengths:
  "length (filter (\<lambda>c. stage c = Applied) cs) + length (filter (\<lambda>c. stage c = Reviewed) cs) +
   length (filter (\<lambda>c. stage c = InterviewScheduled) cs) + length (filter (\<lambda>c. stage c = OfferSent) cs)
   = length cs"
proof (induction cs)
  case Nil
  show ?case by simp
next
  case (Cons c cs)
  then show ?case by (cases "stage c") simp_all
qed

lemma stage_filter_counts:
  "count_list (filter (\<lambda>c. stage c = Applied) cs) x + (count_list (filter (\<lambda>c. stage c = Reviewed) cs) x +
   (count_list (filter (\<lambda>c. stage c = InterviewScheduled) cs) x + count_list (filter (\<lambda>c. stage c = OfferSent) cs) x))
   = count_list cs x"
proof (induction cs)
  case Nil
  show ?case by simp
next
  case (Cons c cs)
  then show ?case by (cases "stage c") simp_all
qed

lemma less4: "i < (4::nat) \<longleftrightarrow> i = 0 \<or> i = 1 \<or> i = 2 \<or> i = 3"
  by arith

text \<open>
  C8: grouping N candidate records by stage yields exactly 4 buckets whose sizes sum to
  N; every occurrence of a record is in the buckets as often as in the collection; a
  bucket holds only records whose stage is the bucket's stage, so each record is in
  exactly one bucket, the one of its stage; and each bucket keeps the relative order
  of the collection.
\<close>

theorem groupByStage_partition:
  "length (groupByStage cs) = 4 \<and>
   sum_list (map length (groupByStage cs)) = length cs \<and>
   (\<forall>x. sum_list (map (\<lambda>bucket. count_list bucket x) (groupByStage cs)) = count_list cs x) \<and>
   (\<forall>i < 4. \<forall>c \<in> set (groupByStage cs ! i). stage_text (stage c) = id_p (PIPELINE_STAGES ! i)) \<and>
   (\<forall>c \<in> set cs. \<exists>!i. i < 4 \<and> c \<in> set (groupByStage cs ! i)) \<and>
   (\<forall>i < 4. subseq (groupByStage cs ! i) cs)"
proof (intro conjI)
  show "length (groupByStage cs) = 4"
    by (simp add: groupByStage_eq)
  show "sum_list (map length (groupByStage cs)) = length cs"
    using stage_filter_lengths [of cs] by (simp add: groupByStage_eq)
  show "\<forall>x. sum_list (map (\<lambda>bucket. count_list bucket x) (groupByStage cs)) = count_list cs x"
    by (simp add: groupByStage_eq stage_filter_counts)
  show "\<forall>i < 4. \<forall>c \<in> set (groupByStage cs ! i). stage_text (stage c) = id_p (PIPELINE_STAGES ! i)"
    by (auto simp add: less4 groupByStage_eq PIPELINE_STAGES_def)
  show "\<forall>i < 4. subseq (groupByStage cs ! i) cs"
    by (auto simp add: less4 groupByStage_eq)
  show "\<forall>c \<in> set cs. \<exists>!i. i < 4 \<and> c \<in> set (groupByStage cs ! i)"
  proof
    fix c assume c: "c \<in> set cs"
    show "\<exists>!i. i < 4 \<and> c \<in> set (groupByStage cs ! i)"
    proof (cases "stage c")
      case Applied
      with c show ?thesis by (intro ex1I[of _ 0]) (auto simp add: less4 groupByStage_eq)
    next
      case Reviewed
      with c show ?thesis by (intro ex1I[of _ 1]) (auto simp add: less4 groupByStage_eq)
    next
      case InterviewScheduled
      with c show ?thesis by (intro ex1I[of _ 2]) (auto simp add: less4 groupByStage_eq)
    next
      case OfferSent
      with c show ?thesis by (intro ex1I[of _ 3]) (auto simp add: less4 groupByStage_eq)
    qed
  qed
qed

text \<open>The instance of C8 at three records: two reviewed, one applied.\<close>

theorem groupByStage_partition_witness:
  "groupByStage [exampleCandidate ''c'' Reviewed, exampleCandidate ''b'' Applied, exampleCandidate ''a'' Reviewed]
   = [[exampleCandidate ''b'' Applied],
      [exampleCandidate ''c'' Reviewed, exampleCandidate ''a'' Reviewed], [], []]"
  using groupByStage_partition [of "[exampleCandidate ''c'' Reviewed, exampleCandidate ''b'' Applied, exampleCandidate ''a'' Reviewed]"]
  by (simp add: groupByStage_def getCandidatesByStage_def PIPELINE_STAGES_def exampleCandidate_def)

section \<open>Skill list\<close>

lemma skillsOf_setExperience:
  "skillsOf (setApplicationForm (noFormUpdates\<lparr>experience_u := Some (e\<lparr>skills := sk\<rparr>)\<rparr>) state, ui) = sk"
  by (simp add: skillsOf_def setApplicationForm_def mergeApplicationForm_def noFormUpdates_def)

lemma handleAddSkill_empty:
  "trim (skillInput (snd st)) = [] \<Longrightarrow>
   fst (handleAddSkill st) = fst st \<and> skillError (handleAddSkill st) = Some ''Please enter a skill''"
  by (simp add: handleAddSkill_def skillError_def Let_def)

lemma handleAddSkill_too_long:
  "trim (skillInput (snd st)) \<noteq> [] \<Longrightarrow> 50 < length (trim (skillInput (snd st))) \<Longrightarrow>
   fst (handleAddSkill st) = fst st \<and>
   skillError (handleAddSkill st) = Some ''Skill must not exceed 50 characters''"
  by (simp add: handleAddSkill_def skillError_def Let_def)

lemma handleAddSkill_duplicate:
  "trim (skillInput (snd st)) \<noteq> [] \<Longrightarrow> length (trim (skillInput (snd st))) \<le> 50 \<Longrightarrow>
   trim (skillInput (snd st)) \<in> set (skillsOf st) \<Longrightarrow>
   fst (handleAddSkill st) = fst st \<and>
   skillError (handleAddSkill st) = Some ''This skill is already added''"
  by (simp add: handleAddSkill_def skillError_def skillsOf_def Let_def)

lemma handleAddSkill_maximum:
  "trim (skillInput (snd st)) \<noteq> [] \<Longrightarrow> length (trim (skillInput (snd st))) \<le> 50 \<Longrightarrow>
   trim (skillInput (snd st)) \<notin> set (skillsOf st) \<Longrightarrow> 20 \<le> length (skillsOf st) \<Longrightarrow>
   fst (handleAddSkill st) = fst st \<and>
   skillError (handleAddSkill st) = Some ''Maximum 20 skills allowed''"
  by (simp add: handleAddSkill_def skillError_def skillsOf_def Let_def)

lemma handleAddSkill_accepts:
  "trim (skillInput (snd st)) \<noteq> [] \<Longrightarrow> length (trim (skillInput (snd st))) \<le> 50 \<Longrightarrow>
   trim (skillInput (snd st)) \<notin> set (skillsOf st) \<Longrightarrow> length (skillsOf st) < 20 \<Longrightarrow>
   skillsOf (handleAddSkill st) = skillsOf st @ [trim (skillInput (snd st))] \<and>
   skillError (handleAddSkill st) = Some []"
  by (simp add: handleAddSkill_def skillError_def skillsOf_def Let_def
      setApplicationForm_def mergeApplicationForm_def noFormUpdates_def)

lemma handleAddSkill_rejects:
  assumes "trim (skillInput (snd st)) = [] \<or> 50 < length (trim (skillInput (snd st))) \<or>
           trim (skillInput (snd st)) \<in> set (skillsOf st) \<or> 20 \<le> length (skillsOf st)"
  shows "fst (handleAddSkill st) = fst st \<and>
         (\<exists>msg. msg \<noteq> [] \<and> skillError (handleAddSkill st) = Some msg)"
proof (cases "trim (skillInput (snd st)) = []")
  case True
  then show ?thesis using handleAddSkill_empty [of st] by simp
next
  case ne: False
  show ?thesis
  proof (cases "50 < length (trim (skillInput (snd st)))")
    case True
    then show ?thesis using ne handleAddSkill_too_long [of st] by simp
  next
    case short: False
    show ?thesis
    proof (cases "trim (skillInput (snd st)) \<in> set (skillsOf st)")
      case True
      then show ?thesis using ne short handleAddSkill_duplicate [of st] by simp
    next
      case False
      then have "20 \<le> length (skillsOf st)" using assms ne short by blast
      then show ?thesis using ne short False handleAddSkill_maximum [of st] by simp
    qed
  qed
qed

lemma skillsOf_handleAddSkill_cases:
  "skillsOf (handleAddSkill st) = skillsOf st \<or>
   (skillsOf (handleAddSkill st) = skillsOf st @ [trim (skillInput (snd st))] \<and>
    trim (skillInput (snd st)) \<noteq> [] \<and> length (trim (skillInput (snd st))) \<le> 50 \<and>
    trim (skillInput (snd st)) \<notin> set (skillsOf st) \<and> length (skillsOf st) < 20)"
proof (cases "trim (skillInput (snd st)) = [] \<or> 50 < length (trim (skillInput (snd st))) \<or>
           trim (skillInput (snd st)) \<in> set (skillsOf st) \<or> 20 \<le> length (skillsOf st)")
  case True
  then have "fst (handleAddSkill st) = fst st" using handleAddSkill_rejects [of st] by blast
  then show ?thesis by (simp add: skillsOf_def)
next
  case False
  then show ?thesis using handleAddSkill_accepts [of st] by force
qed

lemma skillsInv_handleAddSkill:
  assumes "skillsInv (skillsOf st)"
  shows "skillsInv (skillsOf (handleAddSkill st))"
  using skillsOf_handleAddSkill_cases [of st] assms
  by (auto simp add: skillsInv_def)

lemma skillsOf_handleRemoveSkill:
  "skillsOf (handleRemoveSkill k st) = filter (\<lambda>skill. skill \<noteq> k) (skillsOf st)"
  by (simp add: handleRemoveSkill_def skillsOf_def Let_def
      setApplicationForm_def mergeApplicationForm_def noFormUpdates_def)

lemma skillsInv_filter:
  assumes "skillsInv sk"
  shows "skillsInv (filter P sk)"
proof -
  have "length (filter P sk) \<le> 20"
    using assms le_trans [OF length_filter_le, of sk 20 P] by (simp add: skillsInv_def)
  then show ?thesis
    using assms by (simp add: skillsInv_def)
qed

lemma skillsInv_skillStep:
  "skillsInv (skillsOf st) \<Longrightarrow> skillsInv (skillsOf (skillStep ev st))"
proof (cases ev)
  case (TypeSkill input)
  assume "skillsInv (skillsOf st)"
  then show ?thesis using TypeSkill by (simp add: skillsOf_def)
next
  case AddSkill
  assume "skillsInv (skillsOf st)"
  then show ?thesis using AddSkill by (simp add: skillsInv_handleAddSkill)
next
  case (RemoveSkill k)
  assume "skillsInv (skillsOf st)"
  then show ?thesis using RemoveSkill by (simp add: skillsOf_handleRemoveSkill skillsInv_filter)
qed

lemma skillsInv_skillRun:
  "skillsInv (skillsOf st) \<Longrightarrow> skillsInv (skillsOf (skillRun ops st))"
  by (induction ops arbitrary: st) (simp_all add: skillsInv_skillStep)

text \<open>
  C7: for every state \<open>st\<close> that the skill operations (typing, add, remove) reach from
  a draft with no skills:
  \<^item> the skill list has at most 20 entries, and no entry twice;
  \<^item> \<open>handleAddSkill\<close> leaves the store unchanged and sets a non-empty message when the
    trimmed input is empty, longer than 50, already in the list, or the list has 20
    entries;
  \<^item> a trimmed input that is already in the list is rejected with the message
    \<^verbatim>\<open>This skill is already added\<close>; in particular, after an accepted add of \<open>x\<close>, adding
    any \<open>y\<close> with the same trimmed text is rejected with that message;
  \<^item> with 20 entries in the list, an otherwise acceptable new skill is rejected with
    the message \<^verbatim>\<open>Maximum 20 skills allowed\<close>.
\<close>

theorem skill_list_rules:
  assumes "skillsOf st0 = []" and "st = skillRun ops st0"
  shows "length (skillsOf st) \<le> 20 \<and> distinct (skillsOf st) \<and>
    ((trim (skillInput (snd st)) = [] \<or> 50 < length (trim (skillInput (snd st))) \<or>
      trim (skillInput (snd st)) \<in> set (skillsOf st) \<or> 20 \<le> length (skillsOf st)) \<longrightarrow>
       fst (handleAddSkill st) = fst st \<and>
       (\<exists>msg. msg \<noteq> [] \<and> skillError (handleAddSkill st) = Some msg)) \<and>
    (trim (skillInput (snd st)) \<in> set (skillsOf st) \<longrightarrow>
       skillError (handleAddSkill st) = Some ''This skill is already added'') \<and>
    (\<forall>x y. trim y = trim x \<longrightarrow>
       skillsOf (skillRun [TypeSkill x, AddSkill] st) = skillsOf st @ [trim x] \<longrightarrow>
       fst (skillRun [TypeSkill x, AddSkill, TypeSkill y, AddSkill] st) =
         fst (skillRun [TypeSkill x, AddSkill] st) \<and>
       skillError (skillRun [TypeSkill x, AddSkill, TypeSkill y, AddSkill] st) =
         Some ''This skill is already added'') \<and>
    (length (skillsOf st) = 20 \<and> trim (skillInput (snd st)) \<noteq> [] \<and>
     length (trim (skillInput (snd st))) \<le> 50 \<and> trim (skillInput (snd st)) \<notin> set (skillsOf st) \<longrightarrow>
       fst (handleAddSkill st) = fst st \<and>
       skillError (handleAddSkill st) = Some ''Maximum 20 skills allowed'')"
proof -
  have "skillsInv (skillsOf st0)"
    using assms(1) by (simp add: skillsInv_def)
  then have inv: "skillsInv (skillsOf st)"
    using assms(2) by (simp add: skillsInv_skillRun)
  have bound: "length (skillsOf st) \<le> 20" and dist: "distinct (skillsOf st)"
    using inv by (simp_all add: skillsInv_def)
  have rejects: "(trim (skillInput (snd st)) = [] \<or> 50 < length (trim (skillInput (snd st))) \<or>
      trim (skillInput (snd st)) \<in> set (skillsOf st) \<or> 20 \<le> length (skillsOf st)) \<longrightarrow>
       fst (handleAddSkill st) = fst st \<and>
       (\<exists>msg. msg \<noteq> [] \<and> skillError (handleAddSkill st) = Some msg)"
    using handleAddSkill_rejects [of st] by blast
  have present: "trim (skillInput (snd st)) \<in> set (skillsOf st) \<longrightarrow>
       skillError (handleAddSkill st) = Some ''This skill is already added''"
  proof
    assume mem: "trim (skillInput (snd st)) \<in> set (skillsOf st)"
    then have "trim (skillInput (snd st)) \<noteq> []" "length (trim (skillInput (snd st))) \<le> 50"
      using inv by (auto simp add: skillsInv_def)
    then show "skillError (handleAddSkill st) = Some ''This skill is already added''"
      using mem handleAddSkill_duplicate [of st] by simp
  qed
  have twice: "\<forall>x y. trim y = trim x \<longrightarrow>
       skillsOf (skillRun [TypeSkill x, AddSkill] st) = skillsOf st @ [trim x] \<longrightarrow>
       fst (skillRun [TypeSkill x, AddSkill, TypeSkill y, AddSkill] st) =
         fst (skillRun [TypeSkill x, AddSkill] st) \<and>
       skillError (skillRun [TypeSkill x, AddSkill, TypeSkill y, AddSkill] st) =
         Some ''This skill is already added''"
  proof (intro allI impI)
    fix x y
    assume eq: "trim y = trim x"
      and added: "skillsOf (skillRun [TypeSkill x, AddSkill] st) = skillsOf st @ [trim x]"
    define st1 where "st1 = handleAddSkill (fst st, (snd st)\<lparr>skillInput := x\<rparr>)"
    define st2 where "st2 = (fst st1, (snd st1)\<lparr>skillInput := y\<rparr>)"
    have run1: "skillRun [TypeSkill x, AddSkill] st = st1"
      by (simp add: st1_def)
    have run2: "skillRun [TypeSkill x, AddSkill, TypeSkill y, AddSkill] st = handleAddSkill st2"
      by (simp add: st1_def st2_def)
    have sk0: "skillsOf (fst st, (snd st)\<lparr>skillInput := x\<rparr>) = skillsOf st"
      by (simp add: skillsOf_def)
    have sk1: "skillsOf st1 = skillsOf st @ [trim x]"
      using added run1 by simp
    have "skillsOf st1 \<noteq> skillsOf (fst st, (snd st)\<lparr>skillInput := x\<rparr>)"
      using sk1 sk0 by simp
    then have ok: "trim x \<noteq> [] \<and> length (trim x) \<le> 50"
      using skillsOf_handleAddSkill_cases [of "(fst st, (snd st)\<lparr>skillInput := x\<rparr>)"]
      by (simp add: st1_def)
    have sk2: "skillsOf st2 = skillsOf st1"
      by (simp add: st2_def skillsOf_def)
    have tr2: "trim (skillInput (snd st2)) = trim x"
      using eq by (simp add: st2_def)
    have "fst (handleAddSkill st2) = fst st2 \<and>
          skillError (handleAddSkill st2) = Some ''This skill is already added''"
      using handleAddSkill_duplicate [of st2] ok tr2 sk2 sk1 by simp
    then show "fst (skillRun [TypeSkill x, AddSkill, TypeSkill y, AddSkill] st) =
         fst (skillRun [TypeSkill x, AddSkill] st) \<and>
       skillError (skillRun [TypeSkill x, AddSkill, TypeSkill y, AddSkill] st) =
         Some ''This skill is already added''"
      using run1 run2 by (simp add: st2_def)
  qed
  have maxi: "length (skillsOf st) = 20 \<and> trim (skillInput (snd st)) \<noteq> [] \<and>
     length (trim (skillInput (snd st))) \<le> 50 \<and> trim (skillInput (snd st)) \<notin> set (skillsOf st) \<longrightarrow>
       fst (handleAddSkill st) = fst st \<and>
       skillError (handleAddSkill st) = Some ''Maximum 20 skills allowed''"
    using handleAddSkill_maximum [of st] by simp
  show ?thesis
    using bound dist rejects present twice maxi by blast
qed

lemmas skill_eval =
  exampleSkillOps_def js_def handleAddSkill_def trim_def isWhiteSpace_def skillsOf_def
  skillError_def initialStore_def initialApplicationForm_def initialExperienceStepState_def
  setApplicationForm_def mergeApplicationForm_def noFormUpdates_def Let_def

text \<open>
  Two instances of C7 from the initial store: after the twenty skills \<open>a\<close> to \<open>t\<close> the
  skill \<open>u\<close> is rejected with the maximum message; after adding \<open>React\<close>, adding it
  again is rejected as already added.
\<close>

theorem skill_list_rules_witness:
  "skillsOf (initialStore, initialExperienceStepState) = [] \<and>
   skillsOf (skillRun (exampleSkillOps @ [TypeSkill (js '' u '')]) (initialStore, initialExperienceStepState))
     = map (\<lambda>c. [c]) (js ''abcdefghijklmnopqrst'') \<and>
   trim (js '' u '') = js ''u'' \<and>
   fst (handleAddSkill (skillRun (exampleSkillOps @ [TypeSkill (js '' u '')]) (initialStore, initialExperienceStepState)))
     = fst (skillRun (exampleSkillOps @ [TypeSkill (js '' u '')]) (initialStore, initialExperienceStepState)) \<and>
   skillError (handleAddSkill (skillRun (exampleSkillOps @ [TypeSkill (js '' u '')]) (initialStore, initialExperienceStepState)))
     = Some ''Maximum 20 skills allowed'' \<and>
   skillsOf (skillRun [TypeSkill (js '' React ''), AddSkill] (initialStore, initialExperienceStepState))
     = [js ''React''] \<and>
   skillError (skillRun [TypeSkill (js '' React ''), AddSkill, TypeSkill (js ''React''), AddSkill]
      (initialStore, initialExperienceStepState)) = Some ''This skill is already added''"
proof -
  define st0 where "st0 = (initialStore, initialExperienceStepState)"
  define st where "st = skillRun (exampleSkillOps @ [TypeSkill (js '' u '')]) st0"
  have init: "skillsOf st0 = []"
    by (simp add: st0_def skillsOf_def initialStore_def initialApplicationForm_def)
  have sk: "skillsOf st = map (\<lambda>c. [c]) (js ''abcdefghijklmnopqrst'')"
    by (simp add: st_def st0_def skill_eval)
  have input: "trim (skillInput (snd st)) = js ''u''"
    by (simp add: st_def st0_def skill_eval)
  have tr: "trim (js '' u '') = js ''u''"
    by (simp add: trim_def js_def isWhiteSpace_def)
  have len: "length (skillsOf st) = 20"
    by (simp add: sk js_def)
  have new: "trim (skillInput (snd st)) \<notin> set (skillsOf st)"
    by (simp add: sk input js_def)
  have ok: "trim (skillInput (snd st)) \<noteq> []" "length (trim (skillInput (snd st))) \<le> 50"
    by (simp_all add: input js_def)
  have rules: "length (skillsOf st) = 20 \<and> trim (skillInput (snd st)) \<noteq> [] \<and>
     length (trim (skillInput (snd st))) \<le> 50 \<and> trim (skillInput (snd st)) \<notin> set (skillsOf st) \<longrightarrow>
       fst (handleAddSkill st) = fst st \<and>
       skillError (handleAddSkill st) = Some ''Maximum 20 skills allowed''"
    using skill_list_rules [OF init st_def] by (elim conjE)
  have maxi: "fst (handleAddSkill st) = fst st \<and>
       skillError (handleAddSkill st) = Some ''Maximum 20 skills allowed''"
    using rules len new ok by simp
  have twice: "\<forall>x y. trim y = trim x \<longrightarrow>
       skillsOf (skillRun [TypeSkill x, AddSkill] st0) = skillsOf st0 @ [trim x] \<longrightarrow>
       fst (skillRun [TypeSkill x, AddSkill, TypeSkill y, AddSkill] st0) =
         fst (skillRun [TypeSkill x, AddSkill] st0) \<and>
       skillError (skillRun [TypeSkill x, AddSkill, TypeSkill y, AddSkill] st0) =
         Some ''This skill is already added''"
    using skill_list_rules [OF init, of st0 "[]"] by simp
  have tr2: "trim (js ''React'') = trim (js '' React '')" "trim (js '' React '') = js ''React''"
    by (simp_all add: trim_def js_def isWhiteSpace_def)
  have first: "skillsOf (skillRun [TypeSkill (js '' React ''), AddSkill] st0) = [js ''React'']"
    by (simp add: st0_def skill_eval)
  have second: "skillError (skillRun [TypeSkill (js '' React ''), AddSkill, TypeSkill (js ''React''), AddSkill] st0)
      = Some ''This skill is already added''"
    using twice [rule_format, OF tr2(1)] first init tr2(2) by simp
  show ?thesis
    using init sk tr maxi first second unfolding st_def st0_def by (intro conjI) simp_all
qed

section \<open>Regular expressions: the matcher is correct\<close>

lemma nullable_lang: "nullable r \<longleftrightarrow> [] \<in> lang r"
  by (induction r) (auto intro: repeated.none)

lemma repeated_cons:
  "c # w \<in> repeated A \<longleftrightarrow> (\<exists>u v. w = u @ v \<and> c # u \<in> A \<and> v \<in> repeated A)"
proof
  assume "c # w \<in> repeated A"
  then show "\<exists>u v. w = u @ v \<and> c # u \<in> A \<and> v \<in> repeated A"
  proof (induction "c # w" arbitrary: w rule: repeated.induct)
    case (more u v)
    show ?case
    proof (cases u)
      case Nil
      then show ?thesis using more by simp
    next
      case (Cons a u')
      then have "w = u' @ v" and "c # u' \<in> A"
        using more.hyps(1) more.hyps(4) by simp_all
      then show ?thesis using more.hyps(2) by blast
    qed
  qed
next
  assume "\<exists>u v. w = u @ v \<and> c # u \<in> A \<and> v \<in> repeated A"
  then obtain u v where "w = u @ v" "c # u \<in> A" "v \<in> repeated A"
    by blast
  then show "c # w \<in> repeated A"
    using repeated.more [of "c # u" A v] by simp
qed

lemma deriv_lang: "w \<in> lang (deriv c r) \<longleftrightarrow> c # w \<in> lang r"
proof (induction r arbitrary: w)
  case RNone
  show ?case by simp
next
  case REmpty
  show ?case by simp
next
  case (RClass p)
  show ?case by auto
next
  case (RSeq r s)
  have split: "c # w \<in> lang (RSeq r s) \<longleftrightarrow>
      ([] \<in> lang r \<and> c # w \<in> lang s) \<or> (\<exists>u v. w = u @ v \<and> c # u \<in> lang r \<and> v \<in> lang s)"
  proof
    assume "c # w \<in> lang (RSeq r s)"
    then obtain u v where uv: "c # w = u @ v" "u \<in> lang r" "v \<in> lang s"
      by auto
    show "([] \<in> lang r \<and> c # w \<in> lang s) \<or> (\<exists>u v. w = u @ v \<and> c # u \<in> lang r \<and> v \<in> lang s)"
    proof (cases u)
      case Nil
      then show ?thesis using uv by simp
    next
      case (Cons a u')
      then have "w = u' @ v" "c # u' \<in> lang r"
        using uv by simp_all
      then show ?thesis using uv(3) by blast
    qed
  next
    assume "([] \<in> lang r \<and> c # w \<in> lang s) \<or> (\<exists>u v. w = u @ v \<and> c # u \<in> lang r \<and> v \<in> lang s)"
    then show "c # w \<in> lang (RSeq r s)"
    proof
      assume "[] \<in> lang r \<and> c # w \<in> lang s"
      then have "[] @ (c # w) \<in> lang (RSeq r s)"
        by (simp del: append_Nil) blast
      then show ?thesis by simp
    next
      assume "\<exists>u v. w = u @ v \<and> c # u \<in> lang r \<and> v \<in> lang s"
      then obtain u v where w: "w = u @ v" and uv: "c # u \<in> lang r" "v \<in> lang s"
        by blast
      then have "(c # u) @ v \<in> lang (RSeq r s)"
        by (simp del: append_Cons) blast
      then show ?thesis using w by simp
    qed
  qed
  have left: "w \<in> lang (RSeq (deriv c r) s) \<longleftrightarrow> (\<exists>u v. w = u @ v \<and> c # u \<in> lang r \<and> v \<in> lang s)"
    using RSeq.IH(1) by auto
  show ?case
    using split left RSeq.IH(2) [of w] by (auto simp add: nullable_lang)
next
  case (RAlt r s)
  then show ?case by simp
next
  case (RStar r)
  have "w \<in> lang (RSeq (deriv c r) (RStar r)) \<longleftrightarrow>
        (\<exists>u v. w = u @ v \<and> c # u \<in> lang r \<and> v \<in> repeated (lang r))"
    using RStar.IH by auto
  then show ?case
    by (simp add: repeated_cons)
qed

text \<open>\<open>matches\<close> decides membership in the language of the pattern.\<close>

lemma matches_lang: "matches r w \<longleftrightarrow> w \<in> lang r"
  by (induction w arbitrary: r) (simp_all add: nullable_lang deriv_lang)

section \<open>Regular expressions: character-class patterns\<close>

lemma matches_RNone: "matches RNone w = False"
  by (induction w) simp_all

lemma matches_RAlt: "matches (RAlt r s) w \<longleftrightarrow> matches r w \<or> matches s w"
  by (induction w arbitrary: r s) simp_all

lemma matches_RSeq_RNone: "matches (RSeq RNone r) w = False"
  by (induction w) (simp_all add: matches_RNone)

lemma matches_REmpty_RStar_RClass: "matches (RSeq REmpty (RStar (RClass p))) w \<longleftrightarrow> list_all p w"
  by (induction w) (simp_all add: matches_RAlt matches_RSeq_RNone)

lemma matches_RPlus_RClass: "matches (RPlus (RClass p)) w \<longleftrightarrow> w \<noteq> [] \<and> list_all p w"
  by (cases w) (simp_all add: RPlus_def matches_REmpty_RStar_RClass matches_RSeq_RNone)

section \<open>Full name\<close>

text \<open>
  C5, amended: for all strings \<open>s\<close>, \<open>validateFullName\<close> returns valid if and only if
  \<open>s\<close> is not empty after trimming, the length of \<open>s\<close> itself (not of the trimmed
  text) is between 2 and 100, and every character of \<open>s\<close> is an ASCII letter, a
  white-space character (the class \<^verbatim>\<open>\s\<close>: space, tab, line break and the other
  Unicode spaces), a hyphen or an apostrophe.
\<close>

theorem validateFullName_valid_iff:
  "valid (validateFullName s) \<longleftrightarrow>
     trim s \<noteq> [] \<and> 2 \<le> length s \<and> length s \<le> 100 \<and>
     (\<forall>c \<in> set s. isLower c \<or> isUpper c \<or> isWhiteSpace c \<or>
                    c = of_char CHR 0x27 \<or> c = of_char CHR ''-'')"
proof -
  have "matches fullName_pattern s \<longleftrightarrow> s \<noteq> [] \<and> (\<forall>c \<in> set s. fullNameChar c)"
    by (simp add: fullName_pattern_def matches_RPlus_RClass list_all_iff)
  moreover have "2 \<le> length s \<Longrightarrow> s \<noteq> []"
    by auto
  ultimately show ?thesis
    unfolding validateFullName_def fullName_minLength_def fullName_maxLength_def
      fails_def ok_def fullNameChar_def
    by auto
qed

lemma dropWhile_all: "(\<And>x. x \<in> set xs \<Longrightarrow> P x) \<Longrightarrow> dropWhile P (xs @ ys) = dropWhile P ys"
  by (induction xs) auto

text \<open>The amended C5 at a name that passes and at one with digits, which does not.\<close>

theorem validateFullName_valid_iff_witness:
  "valid (validateFullName (js ''Ada Lovelace'')) \<and> \<not> valid (validateFullName (js ''R2-D2''))"
  using validateFullName_valid_iff [of "js ''Ada Lovelace''"] validateFullName_valid_iff [of "js ''R2-D2''"]
  by (simp add: js_def trim_def isWhiteSpace_def isLower_def isUpper_def)

text \<open>
  C5, as stated, fails in both directions. A space followed by \<open>a\<close> is valid although
  its trimmed length is 1, so the claimed condition does not hold of it. Ninety-nine
  spaces followed by \<open>ab\<close> are not valid (the length is 101) although the trimmed
  length is 2 and every character is a letter or a space, so the claimed condition
  holds of it.
\<close>

theorem validateFullName_counterexample:
  "valid (validateFullName (js '' a'')) \<and> \<not> checkFullName_claimed (js '' a'') \<and>
   \<not> valid (validateFullName (replicate 99 32 @ js ''ab'')) \<and>
   checkFullName_claimed (replicate 99 32 @ js ''ab'')"
proof -
  have a: "valid (validateFullName (js '' a''))"
    by (simp add: validateFullName_def js_def trim_def isWhiteSpace_def fullName_minLength_def
        fullName_maxLength_def fullName_pattern_def RPlus_def fullNameChar_def isLower_def ok_def fails_def)
  have b: "\<not> checkFullName_claimed (js '' a'')"
    by (simp add: checkFullName_claimed_def js_def trim_def isWhiteSpace_def)
  have c: "\<not> valid (validateFullName (replicate 99 32 @ js ''ab''))"
    by (simp add: validateFullName_def fullName_minLength_def fullName_maxLength_def js_def fails_def)
  have "dropWhile isWhiteSpace (replicate 99 32 @ js ''ab'') = dropWhile isWhiteSpace (js ''ab'')"
    by (rule dropWhile_all) (simp add: isWhiteSpace_def)
  then have len: "length (trim (replicate 99 32 @ js ''ab'')) = 2"
    by (simp add: trim_def js_def isWhiteSpace_def)
  have chars: "list_all fullNameChar (replicate 99 32 @ js ''ab'')"
    by (simp add: list_all_iff js_def fullNameChar_def isWhiteSpace_def isLower_def)
  have d: "checkFullName_claimed (replicate 99 32 @ js ''ab'')"
    using len chars by (simp add: checkFullName_claimed_def)
  show ?thesis using a b c d by blast
qed

text \<open>The space of the pattern is the class \<^verbatim>\<open>\s\<close>: a tab between two letters is accepted.\<close>

lemma validateFullName_tab:
  "valid (validateFullName [of_char CHR ''a'', 9, of_char CHR ''b''])"
  by (simp add: validateFullName_def trim_def isWhiteSpace_def fullName_minLength_def
      fullName_maxLength_def fullName_pattern_def RPlus_def fullNameChar_def isLower_def ok_def fails_def)

section \<open>Application identifiers\<close>

lemma digit36_upper: "d < 36 \<Longrightarrow> isBase36Upper (upperChar (digit36 d))"
proof -
  assume d: "d < 36"
  show ?thesis
  proof (cases "d < 10")
    case True
    then show ?thesis
      by (simp add: digit36_def upperChar_def isBase36Upper_def Let_def)
  next
    case False
    then have "(97 + (d - 10)) mod 256 = 97 + (d - 10)" "97 + (d - 10) \<le> 122" "32 \<le> 97 + (d - 10)"
      using d by simp_all
    then show ?thesis
      using False d by (simp add: digit36_def upperChar_def isBase36Upper_def Let_def)
  qed
qed

text \<open>The timestamp segment is never empty and consists of upper-case base-36 digits.\<close>

lemma toString36_digits:
  "toString36 n \<noteq> [] \<and> list_all isBase36Upper (toUpperCase (toString36 n))"
proof (induction n rule: toString36.induct)
  case (1 n)
  show ?case
  proof (cases "n < 36")
    case True
    then have "toString36 n = [digit36 n]"
      by (subst toString36.simps) simp
    then show ?thesis
      using True by (simp add: toUpperCase_def digit36_upper)
  next
    case False
    then have unfold: "toString36 n = toString36 (n div 36) @ [digit36 (n mod 36)]"
      by (subst toString36.simps) simp
    have "list_all isBase36Upper (toUpperCase (toString36 (n div 36)))"
      using 1 False by simp
    moreover have "isBase36Upper (upperChar (digit36 (n mod 36)))"
      by (simp add: digit36_upper)
    ultimately show ?thesis
      by (simp add: unfold toUpperCase_def)
  qed
qed

text \<open>The random segment has the characters 2 to 9 of the random text, as many as there are.\<close>

lemma random_segment_length:
  "length (toUpperCase (substring 2 10 r)) = min 8 (length r - 2)"
  by (simp add: toUpperCase_def substring_def)

text \<open>
  For a random text in base 36, the identifier has the documented format exactly when
  the text has at least ten characters, that is, eight or more fraction digits.
\<close>

lemma generateApplicationId_format_iff:
  assumes "list_all isBase36Upper (toUpperCase (substring 2 10 r))"
  shows "matchesIdFormat (generateApplicationId n r) \<longleftrightarrow> 10 \<le> length r"
proof (cases "10 \<le> length r")
  case True
  then have len: "length (toUpperCase (substring 2 10 r)) = 8"
    by (simp add: random_segment_length)
  show ?thesis
    using True assms toString36_digits [of n] len
    by (simp add: matchesIdFormat_def generateApplicationId_def Let_def toUpperCase_def)
next
  case False
  then have len: "length (toUpperCase (substring 2 10 r)) < 8"
    by (simp add: random_segment_length)
  have "length (take 8 (toUpperCase (substring 2 10 r) @ ''-'' @ toUpperCase (toString36 n))) = 8
        \<Longrightarrow> list_all isBase36Upper (take 8 (toUpperCase (substring 2 10 r) @ ''-'' @ toUpperCase (toString36 n)))
        \<Longrightarrow> False"
  proof -
    assume a: "length (take 8 (toUpperCase (substring 2 10 r) @ ''-'' @ toUpperCase (toString36 n))) = 8"
       and b: "list_all isBase36Upper (take 8 (toUpperCase (substring 2 10 r) @ ''-'' @ toUpperCase (toString36 n)))"
    define k where "k = length (toUpperCase (substring 2 10 r))"
    have "(take 8 (toUpperCase (substring 2 10 r) @ ''-'' @ toUpperCase (toString36 n))) ! k = CHR ''-''"
      using len a by (simp add: k_def nth_append)
    moreover have "k < length (take 8 (toUpperCase (substring 2 10 r) @ ''-'' @ toUpperCase (toString36 n)))"
      using len a by (simp add: k_def)
    ultimately have "isBase36Upper CHR ''-''"
      using b by (metis list_all_length)
    then show False by (simp add: isBase36Upper_def)
  qed
  then show ?thesis
    using False by (auto simp add: matchesIdFormat_def generateApplicationId_def Let_def)
qed

lemma digitValue36_digit36: "d < 36 \<Longrightarrow> digitValue36 (digit36 d) = d"
  by (simp add: digitValue36_def digit36_def Let_def)

text \<open>The timestamp segment, before upper-casing, denotes the timestamp.\<close>

lemma fromString36_toString36: "fromString36 (toString36 n) = n"
proof (induction n rule: toString36.induct)
  case (1 n)
  show ?case
  proof (cases "n < 36")
    case True
    then have "toString36 n = [digit36 n]"
      by (subst toString36.simps) simp
    then show ?thesis
      using True by (simp add: fromString36_def digitValue36_digit36)
  next
    case False
    then have unfold: "toString36 n = toString36 (n div 36) @ [digit36 (n mod 36)]"
      by (subst toString36.simps) simp
    have "fromString36 (toString36 (n div 36)) = n div 36"
      using 1 False by simp
    then show ?thesis
      by (simp add: unfold fromString36_def digitValue36_digit36)
  qed
qed

text \<open>
  C6 at \<^verbatim>\<open>Math.random() = 0.5\<close>, whose text in base 36 is \<^verbatim>\<open>0.i\<close>: the random segment
  of the identifier has one character, not eight, and the identifier does not have the
  documented format. At \<^verbatim>\<open>Math.random() = 0\<close> (text \<^verbatim>\<open>0\<close>) the segment is empty.
\<close>

theorem generateApplicationId_short_random:
  "generateApplicationId 1767225600000 ''0.i'' = ''HLA-I-MJUOHS00'' \<and>
   \<not> matchesIdFormat (generateApplicationId 1767225600000 ''0.i'') \<and>
   generateApplicationId 1767225600000 ''0'' = ''HLA--MJUOHS00''"
  by (simp add: generateApplicationId_def substring_def toUpperCase_def upperChar_def digit36_def
      toString36.simps
      matchesIdFormat_def Let_def char_of_eq_iff)

text \<open>With a random text of ten or more characters the identifier has the format.\<close>

lemma generateApplicationId_long_random:
  "matchesIdFormat (generateApplicationId 1767225600000 ''0.4fzyo82mvyr'')"
  by (simp add: generateApplicationId_def substring_def toUpperCase_def upperChar_def digit36_def
      toString36.simps
      matchesIdFormat_def isBase36Upper_def Let_def char_of_eq_iff)

section \<open>The validators on examples\<close>

lemmas char_classes =
  isWhiteSpace_def isDigit_def isLower_def isUpper_def isWord_def fullNameChar_def emailChar_def
  phoneChar_def domainChar_def tldChar_def pathChar_def

lemmas rexp_ops = RPlus_def ROpt_def RChar_def RRep2to6_def

lemma example_fullName_valid: "valid (validateFullName (js ''Ada Lovelace''))"
  by (simp add: validateFullName_def js_def trim_def fullName_minLength_def fullName_maxLength_def
      fullName_pattern_def rexp_ops char_classes ok_def fails_def)

lemma example_email_valid: "valid (validateEmail (js ''ada@example.com''))"
  by (simp add: validateEmail_def js_def trim_def email_pattern_def rexp_ops char_classes ok_def fails_def)

lemma example_phone_valid: "valid (validatePhone (js ''(555) 123-4567''))"
  by (simp add: validatePhone_def js_def trim_def phone_pattern_def phone_minLength_def
      rexp_ops char_classes ok_def fails_def)

lemma example_years_valid: "valid (validateYearsOfExperience (js ''7.5''))"
  by (simp add: validateYearsOfExperience_def js_def trim_def yearsOfExperience_pattern_def
      parseFloat_exceeds_80_def digitsValue_def rexp_ops char_classes ok_def fails_def)

lemma years_examples: "\<not> valid (validateYearsOfExperience (js ''85''))" "\<not> valid (validateYearsOfExperience (js ''abc''))"
           "valid (validateYearsOfExperience (js ''80.000000000000001''))"
           "\<not> valid (validateYearsOfExperience (js ''80.00000000000001''))"
  by (simp_all add: validateYearsOfExperience_def js_def trim_def yearsOfExperience_pattern_def
      parseFloat_exceeds_80_def digitsValue_def rexp_ops char_classes ok_def fails_def)

lemma example_skills_valid: "valid (validateSkills [js ''React''])"
  by (simp add: validateSkills_def js_def skills_maxItems_def skills_maxLength_def ok_def fails_def)

lemma example_portfolio_valid: "valid (validatePortfolioLink [])"
  by (simp add: validatePortfolioLink_def trim_def ok_def)

lemma portfolio_examples: "valid (validatePortfolioLink (js ''https://ada.dev/work''))" "\<not> valid (validatePortfolioLink (js ''not a url''))"
  by (simp_all add: validatePortfolioLink_def js_def trim_def portfolioLink_pattern_def rexp_ops char_classes ok_def fails_def)

lemma example_resume_valid: "valid (validateResume (Some exampleFile))"
  by (simp add: validateResume_def exampleFile_def resume_acceptedFormats_def resume_maxSize_def js_def ok_def fails_def)

section \<open>Submission\<close>

lemma find_Some_holds: "find P xs = Some x \<Longrightarrow> P x"
  by (induction xs) (auto split: if_splits)

text \<open>
  What \<open>handleSubmit\<close> does for a draft whose resume passes \<open>validateResume\<close>, submitted
  while the selected job id is the id of an existing job posting: it puts in front of
  the candidate collection one record whose stage is Applied, whose applicationId is
  the identifier returned by \<open>generateApplicationId\<close>, whose applicationData is the
  draft, and whose job id and title are those of the job, and it routes to the
  thank-you page of that identifier. It does not call \<open>resetApplicationForm\<close>:
  \<open>currentStep\<close> and the draft come out as they went in.
\<close>

lemma handleSubmit_valid_resume:
  assumes "valid (validateResume (resumeFile (applicationForm s)))"
    and "find (\<lambda>j. Some (id_j j) = selectedJobId s) (jobPostings s) = Some job"
  shows "\<exists>cand. fst (handleSubmit env (s, ui)) = s\<lparr>candidates := cand # candidates s\<rparr> \<and>
           stage cand = Applied \<and>
           applicationId cand = generateApplicationId (dateNow env) (randomApplication env) \<and>
           applicationData cand = applicationForm s \<and>
           jobId cand = id_j job \<and> jobTitle cand = title job \<and> appliedDate cand = isoDate env \<and>
           pushed (snd (handleSubmit env (s, ui))) = Some (''/thank-you/'' @ applicationId cand) \<and>
           currentStep (fst (handleSubmit env (s, ui))) = currentStep s \<and>
           applicationForm (fst (handleSubmit env (s, ui))) = applicationForm s"
proof -
  have sel: "selectedJobId s = Some (id_j job)"
    using find_Some_holds [OF assms(2)] by simp
  define cand where "cand =
     \<lparr> id_c = substr 2 9 (randomId env),
       applicationId = generateApplicationId (dateNow env) (randomApplication env),
       jobId = id_j job, jobTitle = title job, applicationData = applicationForm s,
       appliedDate = isoDate env, stage = Applied, score = None, notes_c = Some [],
       interviewDate = None, interviewTime = None, offerDetails = None \<rparr>"
  have run: "handleSubmit env (s, ui) =
      (s\<lparr>candidates := cand # candidates s\<rparr>,
       ui\<lparr>isSubmitting := True, pushed := Some (''/thank-you/'' @ applicationId cand)\<rparr>)"
    using assms sel by (simp add: handleSubmit_def addCandidate_def Let_def cand_def)
  show ?thesis
    by (rule exI [of _ cand]) (simp add: run, simp add: cand_def)
qed

lemma example_steps_valid:
  "valid_s (validatePersonalInfoStep (fullName (personalInfo exampleDraft))
      (email (personalInfo exampleDraft)) (phone (personalInfo exampleDraft)))"
  "valid_s (validateExperienceStep (yearsOfExperience (experience exampleDraft))
      (skills (experience exampleDraft)) (portfolioLink (experience exampleDraft)))"
  "valid_s (validateResumeStep (resumeFile exampleDraft))"
  by (simp_all add: validatePersonalInfoStep_def validateExperienceStep_def validateResumeStep_def
      errorEntry_def exampleDraft_def example_fullName_valid example_email_valid example_phone_valid
      example_years_valid example_skills_valid example_portfolio_valid example_resume_valid)

lemma example_job:
  "find (\<lambda>j. Some (id_j j) = selectedJobId exampleStore) (jobPostings exampleStore)
     = Some (hd mockJobPostings)"
  by (simp add: exampleStore_def initialStore_def mockJobPostings_def)

lemma example_app_id: "generateApplicationId (dateNow exampleEnv) (randomApplication exampleEnv) = ''HLA-4FZYO82M-MJUOHS00''"
  by (simp add: generateApplicationId_def substring_def toUpperCase_def upperChar_def digit36_def
      toString36.simps
      exampleEnv_def Let_def char_of_eq_iff)

text \<open>The store after a submission of the example draft for job \<open>1\<close>.\<close>

lemma handleSubmit_example:
  assumes "applicationForm s = exampleDraft" and "selectedJobId s = Some ''1''"
    and "jobPostings s = mockJobPostings"
  shows "fst (handleSubmit env (s, ui)) =
      s\<lparr>candidates :=
        \<lparr> id_c = substr 2 9 (randomId env),
          applicationId = generateApplicationId (dateNow env) (randomApplication env),
          jobId = ''1'', jobTitle = ''Senior Frontend Developer'', applicationData = exampleDraft,
          appliedDate = isoDate env, stage = Applied, score = None, notes_c = Some [],
          interviewDate = None, interviewTime = None, offerDetails = None \<rparr> # candidates s\<rparr>"
proof -
  have res: "valid (validateResume (resumeFile (applicationForm s)))"
    by (simp add: assms exampleDraft_def example_resume_valid)
  have job: "find (\<lambda>j. Some (id_j j) = selectedJobId s) (jobPostings s) = Some (hd mockJobPostings)"
    by (simp add: assms mockJobPostings_def)
  have ttl: "title (hd mockJobPostings) = ''Senior Frontend Developer''"
    by (simp add: mockJobPostings_def)
  show ?thesis
    using res job unfolding handleSubmit_def Let_def addCandidate_def
    by (simp add: assms(1) assms(2) ttl)
qed

lemma example_store_fields:
  "applicationForm exampleStore = exampleDraft" "selectedJobId exampleStore = Some ''1''"
  "jobPostings exampleStore = mockJobPostings" "candidates exampleStore = []"
  "currentStep exampleStore = 2"
  by (simp_all add: exampleStore_def initialStore_def)

text \<open>
  C2 at the example draft: it passes the three step validators and is submitted for
  the existing job \<open>1\<close> from step 2. The submission adds a record with stage Applied,
  but the wizard is not reset: afterwards \<open>currentStep\<close> is still 2 and the draft is
  still the example draft, where C2 (and \<open>resetApplicationForm\<close>, which nothing calls)
  would have step 0 and the empty initial draft.
\<close>

theorem handleSubmit_does_not_reset:
  "valid_s (validatePersonalInfoStep (fullName (personalInfo exampleDraft))
      (email (personalInfo exampleDraft)) (phone (personalInfo exampleDraft))) \<and>
   valid_s (validateExperienceStep (yearsOfExperience (experience exampleDraft))
      (skills (experience exampleDraft)) (portfolioLink (experience exampleDraft))) \<and>
   valid_s (validateResumeStep (resumeFile exampleDraft)) \<and>
   applicationForm exampleStore = exampleDraft \<and> currentStep exampleStore = 2 \<and>
   selectedJobId exampleStore = Some ''1'' \<and> ''1'' \<in> set (map id_j (jobPostings exampleStore)) \<and>
   map stage (candidates (fst (handleSubmit exampleEnv (exampleStore, initialResumeStepState)))) = [Applied] \<and>
   currentStep (fst (handleSubmit exampleEnv (exampleStore, initialResumeStepState))) = 2 \<and>
   applicationForm (fst (handleSubmit exampleEnv (exampleStore, initialResumeStepState))) = exampleDraft \<and>
   exampleDraft \<noteq> initialApplicationForm \<and>
   currentStep (resetApplicationForm (fst (handleSubmit exampleEnv (exampleStore, initialResumeStepState)))) = 0 \<and>
   applicationForm (resetApplicationForm (fst (handleSubmit exampleEnv (exampleStore, initialResumeStepState))))
     = initialApplicationForm"
proof -
  have job: "''1'' \<in> set (map id_j (jobPostings exampleStore))"
    by (simp add: example_store_fields mockJobPostings_def)
  have diff: "exampleDraft \<noteq> initialApplicationForm"
    by (simp add: exampleDraft_def initialApplicationForm_def)
  show ?thesis
    unfolding handleSubmit_example [OF example_store_fields(1,2,3)]
    using example_steps_valid job diff
    by (simp add: example_store_fields resetApplicationForm_def)
qed

text \<open>The identifier, the job and the record of the example submission.\<close>

lemma handleSubmit_valid_resume_example:
  "valid (validateResume (resumeFile (applicationForm exampleStore))) \<and>
   find (\<lambda>j. Some (id_j j) = selectedJobId exampleStore) (jobPostings exampleStore)
     = Some (hd mockJobPostings) \<and>
   (\<exists>cand. fst (handleSubmit exampleEnv (exampleStore, initialResumeStepState)) = exampleStore\<lparr>candidates := [cand]\<rparr> \<and>
      stage cand = Applied \<and> applicationId cand = ''HLA-4FZYO82M-MJUOHS00'' \<and>
      applicationData cand = exampleDraft \<and> jobId cand = ''1'' \<and>
      jobTitle cand = ''Senior Frontend Developer'')"
proof -
  have res: "valid (validateResume (resumeFile (applicationForm exampleStore)))"
    by (simp add: exampleStore_def exampleDraft_def example_resume_valid)
  have store: "applicationForm exampleStore = exampleDraft" "candidates exampleStore = []"
    by (simp_all add: exampleStore_def initialStore_def)
  have job: "id_j (hd mockJobPostings) = ''1''" "title (hd mockJobPostings) = ''Senior Frontend Developer''"
    by (simp_all add: mockJobPostings_def)
  show ?thesis
    using handleSubmit_valid_resume [OF res example_job, of exampleEnv initialResumeStepState]
      res example_job
    by (auto simp add: store job example_app_id)
qed

section \<open>Stage order\<close>
























end
